theory Spec2Isabelle
  imports Complex_Main "HOL-Library.Word" "HOL-Library.Char_ord" "HOL-Library.List_Lexorder"
    "HOL-Library.Multiset"
begin

unbundle bit_operations_syntax

section \<open>Data model\<close>

text \<open>
  The oracle modules pass Python values around: dictionaries with string keys, lists,
  strings, integers, floats, booleans and \<^verbatim>\<open>None\<close>. A Python \<^verbatim>\<open>str\<close> is a
  \<^typ>\<open>string\<close>, one \<^typ>\<open>char\<close> per character (the characters with code point below
  256); \<^verbatim>\<open>bytes\<close> is a list of 8-bit words. A dictionary is an association list in
  insertion order whose keys are distinct; \<^verbatim>\<open>d.get(k)\<close> is \<^const>\<open>map_of\<close>.

  A float is kept as the number it denotes (every finite double is a rational), or as one
  of the three special values; the code only compares floats and prints them. The two
  zeros are two floats: \<open>Finite 0\<close> is \<^verbatim>\<open>0.0\<close> and \<open>NegZero\<close> is \<^verbatim>\<open>-0.0\<close>, equal
  in every comparison and printed differently.
\<close>

type_synonym byte = "8 word"
type_synonym bytes = "byte list"

datatype pyfloat = Finite rat | NegZero | PosInf | NegInf | NaN

datatype json =
    JNull
  | JBool bool
  | JInt int
  | JFloat pyfloat
  | JStr string
  | JList "json list"
  | JDict "(string \<times> json) list"

type_synonym pydict = "(string \<times> json) list"

text \<open>
  Exceptions are values. \<open>DecodeError\<close> carries the two exceptions of the standard
  library's decoding (\<^verbatim>\<open>bytes.decode\<close>, \<^verbatim>\<open>json.loads\<close>).
  \<open>EncryptionPolicyViolation\<close> is the error kind the specification names for a refused
  decryption; no path of the source raises it.
\<close>

datatype decode_error = UnicodeDecodeError | JSONDecodeError

datatype pyerr =
    ValueError string
  | TypeError
  | AttributeError
  | KeyError string
  | DecodeError decode_error
  | EncryptionPolicyViolation

section \<open>walrus\_uploader.py\<close>

text \<open>
  \<^verbatim>\<open>WalrusUploader.create_evidence_bundle\<close>: a dictionary literal of five entries;
  \<^verbatim>\<open>metadata.get("timestamp", 0)\<close> is the stored value when the key is there and the
  integer 0 otherwise.
\<close>

definition create_evidence_bundle :: "pydict \<Rightarrow> pydict \<Rightarrow> pydict \<Rightarrow> pydict" where
  "create_evidence_bundle inference_input inference_output metadata =
     [(''version'', JStr ''1.0''),
      (''timestamp'', (case map_of metadata ''timestamp'' of None \<Rightarrow> JInt 0 | Some t \<Rightarrow> t)),
      (''input'', JDict inference_input),
      (''output'', JDict inference_output),
      (''metadata'', JDict metadata)]"

section \<open>seal\_encryptor.py\<close>

text \<open>
  \<^verbatim>\<open>SealEncryptor._create_public_summary\<close>. The inner
  \<^verbatim>\<open>full_evidence.get("tee_attestation", {}).get("version", "1.0")\<close> calls \<^verbatim>\<open>.get\<close>
  on whatever is stored under \<^verbatim>\<open>tee_attestation\<close>: a value there that is not a
  dictionary raises AttributeError.
\<close>

definition create_public_summary :: "pydict \<Rightarrow> string \<Rightarrow> pyerr + pydict" where
  "create_public_summary full_evidence market_id =
     (case (case map_of full_evidence ''tee_attestation'' of None \<Rightarrow> JDict [] | Some a \<Rightarrow> a) of
        JDict attestation \<Rightarrow>
          Inr [(''market_id'', JStr market_id),
               (''outcome'', (case map_of full_evidence ''outcome'' of None \<Rightarrow> JNull | Some v \<Rightarrow> v)),
               (''resolution_date'',
                  (case map_of full_evidence ''resolution_date'' of None \<Rightarrow> JNull | Some v \<Rightarrow> v)),
               (''oracle_version'',
                  (case map_of attestation ''version'' of None \<Rightarrow> JStr ''1.0'' | Some v \<Rightarrow> v)),
               (''evidence_type'', JStr ''public_summary''),
               (''premium_available'', JBool True),
               (''message'', JStr ''Full reasoning and sources available for premium subscribers'')]
      | _ \<Rightarrow> Inl AttributeError)"

section \<open>openai\_inference.py\<close>

text \<open>
  The operators \<^verbatim>\<open>validate_output\<close> applies to what it finds under \<^verbatim>\<open>resolution\<close>.
  \<^verbatim>\<open>k in c\<close> is a key test on a dictionary, an element test on a list, a substring
  test on a string and a TypeError on the other values; \<^verbatim>\<open>c[k]\<close> with a string key is
  defined on dictionaries only. A value takes part in a numeric comparison as a number
  when it is a bool (0 or 1), an int or a float, the negative zero as zero; comparing a
  float with anything else by \<^verbatim>\<open><=\<close> raises TypeError, and a comparison with NaN is
  false.
\<close>

fun find_str :: "string \<Rightarrow> string \<Rightarrow> bool" where
  "find_str sub [] = (sub = [])"
| "find_str sub (c # cs) = (take (length sub) (c # cs) = sub \<or> find_str sub cs)"

definition py_in :: "string \<Rightarrow> json \<Rightarrow> pyerr + bool" where
  "py_in k container =
     (case container of
        JDict d \<Rightarrow> Inr (map_of d k \<noteq> None)
      | JList xs \<Rightarrow> Inr (JStr k \<in> set xs)
      | JStr s \<Rightarrow> Inr (find_str k s)
      | _ \<Rightarrow> Inl TypeError)"

definition py_getitem :: "json \<Rightarrow> string \<Rightarrow> pyerr + json" where
  "py_getitem container k =
     (case container of
        JDict d \<Rightarrow> (case map_of d k of None \<Rightarrow> Inl (KeyError k) | Some v \<Rightarrow> Inr v)
      | _ \<Rightarrow> Inl TypeError)"

fun float_le :: "pyfloat \<Rightarrow> pyfloat \<Rightarrow> bool" where
  "float_le NaN _ = False"
| "float_le _ NaN = False"
| "float_le NegInf _ = True"
| "float_le _ PosInf = True"
| "float_le (Finite a) (Finite b) = (a \<le> b)"
| "float_le (Finite a) NegZero = (a \<le> 0)"
| "float_le NegZero (Finite b) = (0 \<le> b)"
| "float_le NegZero NegZero = True"
| "float_le _ _ = False"

definition as_number :: "json \<Rightarrow> pyfloat option" where
  "as_number v =
     (case v of
        JBool b \<Rightarrow> Some (Finite (if b then 1 else 0))
      | JInt i \<Rightarrow> Some (Finite (of_int i))
      | JFloat f \<Rightarrow> Some (case f of NegZero \<Rightarrow> Finite 0 | _ \<Rightarrow> f)
      | _ \<Rightarrow> None)"

text \<open>
  \<^verbatim>\<open>GPT5Inference.validate_output\<close>, check by check in the order of the source: the
  three required fields, \<^verbatim>\<open>value\<close> and \<^verbatim>\<open>confidence\<close> in the resolution, then
  \<^verbatim>\<open>0.0 <= confidence <= 1.0\<close>, then \<^verbatim>\<open>value not in [0, 1]\<close> (an equality test,
  which raises nothing).
\<close>

definition validate_output :: "pydict \<Rightarrow> pyerr + bool" where
  "validate_output output =
     (if \<not> list_all (\<lambda>field. map_of output field \<noteq> None) [''resolution'', ''sources'', ''rationale'']
      then Inr False
      else case map_of output ''resolution'' of
        None \<Rightarrow> Inl (KeyError ''resolution'')
      | Some resolution \<Rightarrow>
          (case py_in ''value'' resolution of
             Inl e \<Rightarrow> Inl e
           | Inr has_value \<Rightarrow>
               if \<not> has_value then Inr False
               else (case py_in ''confidence'' resolution of
                  Inl e \<Rightarrow> Inl e
                | Inr has_confidence \<Rightarrow>
                    if \<not> has_confidence then Inr False
                    else (case py_getitem resolution ''confidence'' of
                       Inl e \<Rightarrow> Inl e
                     | Inr confidence \<Rightarrow>
                        (case as_number confidence of
                           None \<Rightarrow> Inl TypeError
                         | Some c \<Rightarrow>
                             if \<not> (float_le (Finite 0) c \<and> float_le c (Finite 1)) then Inr False
                             else (case py_getitem resolution ''value'' of
                                Inl e \<Rightarrow> Inl e
                              | Inr v \<Rightarrow>
                                  if as_number v \<noteq> Some (Finite 0) \<and> as_number v \<noteq> Some (Finite 1)
                                  then Inr False
                                  else Inr True))))))"

section \<open>Python built-ins and the standard library\<close>

text \<open>
  What the modules take from Python itself, written out: \<^verbatim>\<open>sep.join(xs)\<close>,
  \<^verbatim>\<open>str(i)\<close> of an integer (decimal digits, a minus sign for a negative number),
  \<^verbatim>\<open>s.encode()\<close> (UTF-8: one byte for a character below 128, two bytes for the
  others of this model), \<^verbatim>\<open>bs.hex()\<close> (two lower-case digits a byte) and
  \<^verbatim>\<open>bytes.fromhex(s)\<close> (two hexadecimal digits a byte, of either case, ASCII white
  space skipped before each byte, None for the ValueError on anything else).
\<close>

fun join :: "string \<Rightarrow> string list \<Rightarrow> string" where
  "join sep [] = []"
| "join sep [x] = x"
| "join sep (x # y # ys) = x @ sep @ join sep (y # ys)"

definition digit_char :: "nat \<Rightarrow> char" where
  "digit_char n = char_of (48 + n)"

function str_nat :: "nat \<Rightarrow> string" where
  "str_nat n = (if n < 10 then [digit_char n] else str_nat (n div 10) @ [digit_char (n mod 10)])"
  by pat_completeness auto
termination
  by (relation "measure id") auto

declare str_nat.simps [simp del]

definition str_int :: "int \<Rightarrow> string" where
  "str_int i = (if i < 0 then CHR ''-'' # str_nat (nat (- i)) else str_nat (nat i))"

definition utf8_char :: "char \<Rightarrow> bytes" where
  "utf8_char c =
     (let n = of_char c :: nat
      in if n < 128 then [of_nat n] else [of_nat (192 + n div 64), of_nat (128 + n mod 64)])"

definition utf8_encode :: "string \<Rightarrow> bytes" where
  "utf8_encode s = concat (map utf8_char s)"

definition hex_digit :: "nat \<Rightarrow> char" where
  "hex_digit n = (if n < 10 then char_of (48 + n) else char_of (87 + n))"

definition hex_byte :: "byte \<Rightarrow> string" where
  "hex_byte b = [hex_digit (unat b div 16), hex_digit (unat b mod 16)]"

definition hex :: "bytes \<Rightarrow> string" where
  "hex bs = concat (map hex_byte bs)"

definition hex_value :: "char \<Rightarrow> nat option" where
  "hex_value c =
     (let n = of_char c :: nat
      in if 48 \<le> n \<and> n \<le> 57 then Some (n - 48)
         else if 97 \<le> n \<and> n \<le> 102 then Some (n - 87)
         else if 65 \<le> n \<and> n \<le> 70 then Some (n - 55)
         else None)"

definition is_space :: "char \<Rightarrow> bool" where
  "is_space c = ((of_char c :: nat) \<in> {32, 9, 10, 11, 12, 13})"

fun bytes_fromhex :: "string \<Rightarrow> bytes option" where
  "bytes_fromhex [] = Some []"
| "bytes_fromhex [c] = (if is_space c then Some [] else None)"
| "bytes_fromhex (c # d # ds) =
     (if is_space c then bytes_fromhex (d # ds)
      else case (hex_value c, hex_value d) of
             (Some a, Some b) \<Rightarrow> map_option ((#) (of_nat (16 * a + b))) (bytes_fromhex ds)
           | _ \<Rightarrow> None)"

text \<open>
  \<^verbatim>\<open>hashlib.sha256\<close> is not part of the repository: every function that hashes takes
  it as the parameter \<open>sha256\<close>, a function from byte strings to 256-bit values.
  \<^verbatim>\<open>.digest()\<close> is the 32 bytes of the value, most significant first, and
  \<^verbatim>\<open>.hexdigest()\<close> their 64 hexadecimal digits.
\<close>

definition digest_bytes :: "256 word \<Rightarrow> bytes" where
  "digest_bytes w = map (\<lambda>i. ucast (drop_bit (8 * (31 - i)) w)) [0..<32]"

definition hexdigest :: "256 word \<Rightarrow> string" where
  "hexdigest w = hex (digest_bytes w)"

subsection \<open>json.dumps\<close>

text \<open>
  The encoder of \<^verbatim>\<open>json.dumps\<close> with its default \<^verbatim>\<open>ensure_ascii=True\<close>, for the
  three ways the modules call it. A string is quoted and every character outside the
  printable ASCII range, the quote and the backslash are escaped. An empty list is
  \<^verbatim>\<open>[]\<close>; the items of another list are joined by the item separator, each on a
  line of its own when an indent is given; a dictionary likewise, with the entries in
  insertion order or, under \<^verbatim>\<open>sort_keys\<close>, sorted by key. How a finite float prints
  (\<^verbatim>\<open>float.__repr__\<close>) is the parameter \<open>fr\<close>, a function of the number the float
  denotes; the negative zero prints as \<^verbatim>\<open>-0.0\<close>.
\<close>

record dumps_opts =
  sort_keys :: bool
  item_separator :: string
  key_separator :: string
  indent :: "string option"

definition escape_char :: "char \<Rightarrow> string" where
  "escape_char c =
     (let n = of_char c :: nat
      in if n = 0x5C then [CHR 0x5C, CHR 0x5C]
         else if n = 0x22 then [CHR 0x5C, CHR 0x22]
         else if n = 0x08 then [CHR 0x5C, CHR ''b'']
         else if n = 0x0C then [CHR 0x5C, CHR ''f'']
         else if n = 0x0A then [CHR 0x5C, CHR ''n'']
         else if n = 0x0D then [CHR 0x5C, CHR ''r'']
         else if n = 0x09 then [CHR 0x5C, CHR ''t'']
         else if 0x20 \<le> n \<and> n \<le> 0x7E then [c]
         else [CHR 0x5C, CHR ''u'', CHR ''0'', CHR ''0'', hex_digit (n div 16), hex_digit (n mod 16)])"

definition encode_basestring_ascii :: "string \<Rightarrow> string" where
  "encode_basestring_ascii s = [CHR 0x22] @ concat (map escape_char s) @ [CHR 0x22]"

definition floatstr :: "(rat \<Rightarrow> string) \<Rightarrow> pyfloat \<Rightarrow> string" where
  "floatstr float_repr f =
     (case f of NaN \<Rightarrow> ''NaN'' | PosInf \<Rightarrow> ''Infinity'' | NegInf \<Rightarrow> ''-Infinity''
      | NegZero \<Rightarrow> ''-0.0''
      | Finite r \<Rightarrow> float_repr r)"

definition newline_indent :: "dumps_opts \<Rightarrow> nat \<Rightarrow> string" where
  "newline_indent opts level =
     (case indent opts of None \<Rightarrow> [] | Some ind \<Rightarrow> CHR 0x0A # concat (replicate level ind))"

lemma size_json_list_elem: "x \<in> set lst \<Longrightarrow> size x < Suc (size_list size lst)"
  by (induction lst) auto

lemma size_json_dict_elem:
  "kv \<in> set dct \<Longrightarrow> size (snd kv) < Suc (size_list (size_prod (\<lambda>_. 0) size) dct)"
  by (induction dct) auto

function (sequential) iterencode :: "(rat \<Rightarrow> string) \<Rightarrow> dumps_opts \<Rightarrow> nat \<Rightarrow> json \<Rightarrow> string" where
  "iterencode fr opts level JNull = ''null''"
| "iterencode fr opts level (JBool b) = (if b then ''true'' else ''false'')"
| "iterencode fr opts level (JInt i) = str_int i"
| "iterencode fr opts level (JFloat f) = floatstr fr f"
| "iterencode fr opts level (JStr s) = encode_basestring_ascii s"
| "iterencode fr opts level (JList lst) =
     (if lst = [] then ''[]''
      else ''['' @ newline_indent opts (level + 1)
           @ join (item_separator opts @ newline_indent opts (level + 1))
                  (map (iterencode fr opts (level + 1)) lst)
           @ newline_indent opts level @ '']'')"
| "iterencode fr opts level (JDict dct) =
     (if dct = [] then ''{}''
      else ''{'' @ newline_indent opts (level + 1)
           @ join (item_separator opts @ newline_indent opts (level + 1))
                  (map (\<lambda>kv. encode_basestring_ascii (fst kv) @ key_separator opts
                              @ iterencode fr opts (level + 1) (snd kv))
                       (if sort_keys opts then sort_key fst dct else dct))
           @ newline_indent opts level @ ''}'')"
  by pat_completeness auto

termination iterencode
  apply (relation "measure (\<lambda>(fr, opts, level, v). size v)")
    apply simp
   apply (simp add: size_json_list_elem)
  apply (auto simp add: size_json_dict_elem split: if_splits)
  done

definition json_dumps :: "(rat \<Rightarrow> string) \<Rightarrow> dumps_opts \<Rightarrow> json \<Rightarrow> string" where
  "json_dumps fr opts obj = iterencode fr opts 0 obj"

section \<open>walrus\_uploader.py: hashing\<close>

text \<open>
  \<^verbatim>\<open>WalrusUploader.hash_bundle\<close>:
  \<^verbatim>\<open>json.dumps(bundle, sort_keys=True, separators=(',', ':'))\<close>, hashed, in hexadecimal
  after \<^verbatim>\<open>0x\<close>.
\<close>

definition hash_bundle :: "(rat \<Rightarrow> string) \<Rightarrow> (bytes \<Rightarrow> 256 word) \<Rightarrow> pydict \<Rightarrow> string" where
  "hash_bundle fr sha256 bundle =
     (let bundle_json = json_dumps fr
            \<lparr>sort_keys = True, item_separator = '','', key_separator = '':'', indent = None\<rparr>
            (JDict bundle);
          bundle_hash = hexdigest (sha256 (utf8_encode bundle_json))
      in ''0x'' @ bundle_hash)"

section \<open>seal\_encryptor.py: encryption\<close>

record SealConfig =
  seal_package_id :: string
  seal_policy_id :: string
  threshold :: int
  key_servers :: "string list"

text \<open>
  The dataclass \<^verbatim>\<open>EncryptedEvidence\<close>; its field \<^verbatim>\<open>seal_policy_id\<close> is
  \<open>evidence_policy_id\<close> here, the name being taken by the configuration.
\<close>

record EncryptedEvidence =
  encrypted_blob :: bytes
  public_summary :: pydict
  evidence_policy_id :: string
  encryption_metadata :: pydict

definition bytes_literal :: "string \<Rightarrow> bytes" where
  "bytes_literal s = map of_char s"

text \<open>
  The loop \<^verbatim>\<open>for i in range(len(encrypted)): encrypted[i] ^= key[i % len(key)]\<close>,
  from index \<open>i\<close> on. The key is a SHA-256 digest, 32 bytes, so the index is in range.
\<close>

fun xor_loop :: "bytes \<Rightarrow> nat \<Rightarrow> bytes \<Rightarrow> bytes" where
  "xor_loop key i [] = []"
| "xor_loop key i (b # bs) = (b XOR key ! (i mod length key)) # xor_loop key (Suc i) bs"

definition simulate_seal_encryption ::
  "(bytes \<Rightarrow> 256 word) \<Rightarrow> SealConfig \<Rightarrow> bytes \<Rightarrow> string \<Rightarrow> bytes" where
  "simulate_seal_encryption sha256 config data market_id =
     (let key = digest_bytes (sha256 (utf8_encode (seal_policy_id config @ '':'' @ market_id)));
          encrypted = xor_loop key 0 data;
          header = bytes_literal ''SEAL_ENC_V1:''
      in header @ encrypted)"

definition encrypt_evidence ::
  "(rat \<Rightarrow> string) \<Rightarrow> (bytes \<Rightarrow> 256 word) \<Rightarrow> SealConfig \<Rightarrow> pydict \<Rightarrow> string
     \<Rightarrow> pyerr + EncryptedEvidence" where
  "encrypt_evidence fr sha256 config full_evidence market_id =
     (case create_public_summary full_evidence market_id of
        Inl e \<Rightarrow> Inl e
      | Inr summary \<Rightarrow>
          let evidence_json = json_dumps fr
                \<lparr>sort_keys = False, item_separator = '','', key_separator = '': '',
                 indent = Some ''  ''\<rparr> (JDict full_evidence);
              evidence_bytes = utf8_encode evidence_json;
              blob = simulate_seal_encryption sha256 config evidence_bytes market_id;
              metadata =
                [(''seal_package_id'', JStr (seal_package_id config)),
                 (''seal_policy_id'', JStr (seal_policy_id config)),
                 (''threshold'', JInt (threshold config)),
                 (''key_servers'', JList (map JStr (key_servers config))),
                 (''encrypted_size_bytes'', JInt (int (length blob))),
                 (''original_size_bytes'', JInt (int (length evidence_bytes))),
                 (''encryption_method'', JStr ''Seal-Threshold-AES-GCM (simulated)''),
                 (''content_hash'', JStr (hexdigest (sha256 evidence_bytes)))]
          in Inr \<lparr>encrypted_blob = blob, public_summary = summary,
                   evidence_policy_id = seal_policy_id config, encryption_metadata = metadata\<rparr>)"

text \<open>
  \<^verbatim>\<open>SealEncryptor.decrypt_evidence\<close>. Its arguments are the blob and the market id:
  there is no key material among them, and the body reads neither the threshold nor the
  key servers. The last two steps, \<^verbatim>\<open>bytes(decrypted).decode('utf-8')\<close> and
  \<^verbatim>\<open>json.loads\<close>, are the standard library's: together they are the parameter
  \<open>loads\<close>, from the decrypted bytes to the parsed value or the exception raised
  (UnicodeDecodeError, JSONDecodeError), which \<^verbatim>\<open>decrypt_evidence\<close> lets through.
\<close>

definition decrypt_evidence ::
  "(bytes \<Rightarrow> 256 word) \<Rightarrow> (bytes \<Rightarrow> decode_error + json) \<Rightarrow> SealConfig \<Rightarrow> bytes \<Rightarrow> string
     \<Rightarrow> pyerr + json" where
  "decrypt_evidence sha256 loads config blob market_id =
     (if take 12 blob \<noteq> bytes_literal ''SEAL_ENC_V1:''
      then Inl (ValueError ''Invalid encrypted blob format'')
      else let encrypted_data = drop 12 blob;
               key = digest_bytes (sha256 (utf8_encode (seal_policy_id config @ '':'' @ market_id)));
               decrypted = xor_loop key 0 encrypted_data
           in case loads decrypted of
                Inl e \<Rightarrow> Inl (DecodeError e)
              | Inr evidence \<Rightarrow> Inr evidence)"

section \<open>signature\_generator.py\<close>

text \<open>
  The generator holds the three enclave strings and an ECDSA key pair. The
  \<^verbatim>\<open>cryptography\<close> package is not part of the repository: signing is the parameter
  \<open>ec_sign\<close> (private key, the randomness the signature draws, digest) and verification
  the parameter \<open>ec_verify\<close> (public key, signature bytes, digest), true when
  \<^verbatim>\<open>public_key.verify\<close> returns and false when it raises InvalidSignature. With
  \<^verbatim>\<open>Prehashed(SHA256())\<close> both raise ValueError on a digest that is not 32 bytes long.
\<close>

record ('sk, 'pk) TEESignatureGenerator =
  enclave_id :: string
  enclave_pubkey :: string
  mrenclave :: string
  private_key :: 'sk
  public_key :: 'pk

text \<open>The dictionary \<^verbatim>\<open>create_tee_proof\<close> returns, its eleven keys as fields.\<close>

record tee_proof =
  proof_enclave_id :: string
  proof_enclave_pubkey :: string
  proof_mrenclave :: string
  proof_sig :: string
  proof_attestation :: string
  proof_timestamp :: int
  proof_nonce :: string
  proof_h_in :: string
  proof_h_out :: string
  proof_blob_id :: string
  proof_blob_hash :: string

definition generate_nonce :: "string \<Rightarrow> string" where
  "generate_nonce token_hex = ''0x'' @ token_hex"

definition hash_input :: "(rat \<Rightarrow> string) \<Rightarrow> (bytes \<Rightarrow> 256 word) \<Rightarrow> pydict \<Rightarrow> string" where
  "hash_input fr sha256 data =
     (let data_json = json_dumps fr
            \<lparr>sort_keys = True, item_separator = '', '', key_separator = '': '', indent = None\<rparr>
            (JDict data);
          h = hexdigest (sha256 (utf8_encode data_json))
      in ''0x'' @ h)"

definition hash_output :: "(rat \<Rightarrow> string) \<Rightarrow> (bytes \<Rightarrow> 256 word) \<Rightarrow> pydict \<Rightarrow> string" where
  "hash_output fr sha256 data =
     (let data_json = json_dumps fr
            \<lparr>sort_keys = True, item_separator = '', '', key_separator = '': '', indent = None\<rparr>
            (JDict data);
          h = hexdigest (sha256 (utf8_encode data_json))
      in ''0x'' @ h)"

text \<open>
  \<^verbatim>\<open>create_report_digest\<close> joins the eight components with \<^verbatim>\<open>||\<close> and hashes the
  encoded string; \<open>digest_string\<close> is that string, the local variable of the source.
\<close>

definition digest_string ::
  "('sk, 'pk) TEESignatureGenerator \<Rightarrow> string \<Rightarrow> string \<Rightarrow> string \<Rightarrow> string \<Rightarrow> int \<Rightarrow> string
     \<Rightarrow> string" where
  "digest_string self h_in h_out blob_id blob_hash timestamp nonce =
     (let digest_components =
            [h_in, h_out, blob_id, blob_hash, str_int timestamp, nonce,
             enclave_id self, mrenclave self]
      in join ''||'' digest_components)"

definition create_report_digest ::
  "(bytes \<Rightarrow> 256 word) \<Rightarrow> ('sk, 'pk) TEESignatureGenerator
     \<Rightarrow> string \<Rightarrow> string \<Rightarrow> string \<Rightarrow> string \<Rightarrow> int \<Rightarrow> string \<Rightarrow> bytes" where
  "create_report_digest sha256 self h_in h_out blob_id blob_hash timestamp nonce =
     digest_bytes (sha256 (utf8_encode
       (digest_string self h_in h_out blob_id blob_hash timestamp nonce)))"

definition sign_report ::
  "('sk \<Rightarrow> 'r \<Rightarrow> bytes \<Rightarrow> bytes) \<Rightarrow> ('sk, 'pk) TEESignatureGenerator \<Rightarrow> 'r \<Rightarrow> bytes
     \<Rightarrow> pyerr + string" where
  "sign_report ec_sign self rnd report_digest =
     (if length report_digest \<noteq> 32
      then Inl (ValueError ''The provided data must be the same length as the hash algorithm's digest size.'')
      else let signature = ec_sign (private_key self) rnd report_digest;
               sig_hex = hex signature
           in Inr (''0x'' @ sig_hex))"

definition generate_attestation ::
  "(rat \<Rightarrow> string) \<Rightarrow> (bytes \<Rightarrow> 256 word) \<Rightarrow> ('sk, 'pk) TEESignatureGenerator
     \<Rightarrow> string \<Rightarrow> int \<Rightarrow> bytes \<Rightarrow> string" where
  "generate_attestation fr sha256 self mrsigner_token now report_digest =
     (let attestation_data =
            [(''version'', JInt 4),
             (''sign_type'', JInt 1),
             (''enclave_id'', JStr (enclave_id self)),
             (''mrenclave'', JStr (mrenclave self)),
             (''mrsigner'', JStr (''0x'' @ mrsigner_token)),
             (''report_data'', JStr (hex report_digest)),
             (''timestamp'', JInt now),
             (''status'', JStr ''OK'')];
          attestation_json = json_dumps fr
            \<lparr>sort_keys = True, item_separator = '', '', key_separator = '': '', indent = None\<rparr>
            (JDict attestation_data);
          attestation_hash = hexdigest (sha256 (utf8_encode attestation_json))
      in ''0x'' @ attestation_hash)"

text \<open>
  \<^verbatim>\<open>create_tee_proof\<close> reads the clock and the random source; what it reads is passed
  in: the clock at the start (\<open>now\<close>), the 64 hexadecimal digits of the nonce
  (\<open>nonce_token\<close>), the randomness of the signature (\<open>rnd\<close>), and for the attestation
  the simulated signer (\<open>mrsigner_token\<close>) and the clock again (\<open>now'\<close>).
\<close>

definition create_tee_proof ::
  "(rat \<Rightarrow> string) \<Rightarrow> (bytes \<Rightarrow> 256 word) \<Rightarrow> ('sk \<Rightarrow> 'r \<Rightarrow> bytes \<Rightarrow> bytes)
     \<Rightarrow> ('sk, 'pk) TEESignatureGenerator \<Rightarrow> int \<Rightarrow> string \<Rightarrow> 'r \<Rightarrow> string \<Rightarrow> int
     \<Rightarrow> pydict \<Rightarrow> pydict \<Rightarrow> string \<Rightarrow> string \<Rightarrow> pyerr + tee_proof" where
  "create_tee_proof fr sha256 ec_sign self now nonce_token rnd mrsigner_token now'
       inference_input inference_output blob_id blob_hash =
     (let timestamp = now;
          nonce = generate_nonce nonce_token;
          h_in = hash_input fr sha256 inference_input;
          h_out = hash_output fr sha256 inference_output;
          report_digest = create_report_digest sha256 self h_in h_out blob_id blob_hash timestamp nonce
      in case sign_report ec_sign self rnd report_digest of
           Inl e \<Rightarrow> Inl e
         | Inr signature \<Rightarrow>
             let attestation = generate_attestation fr sha256 self mrsigner_token now' report_digest
             in Inr \<lparr>proof_enclave_id = enclave_id self,
                      proof_enclave_pubkey = enclave_pubkey self,
                      proof_mrenclave = mrenclave self,
                      proof_sig = signature,
                      proof_attestation = attestation,
                      proof_timestamp = timestamp,
                      proof_nonce = nonce,
                      proof_h_in = h_in,
                      proof_h_out = h_out,
                      proof_blob_id = blob_id,
                      proof_blob_hash = blob_hash\<rparr>)"

text \<open>
  \<^verbatim>\<open>verify_signature\<close>: the whole body is inside \<^verbatim>\<open>try\<close>, and
  \<^verbatim>\<open>except Exception\<close> turns every exception into False: the ValueError of
  \<^verbatim>\<open>bytes.fromhex\<close>, the ValueError for a digest of the wrong length and
  InvalidSignature. \<^verbatim>\<open>signature[2:]\<close> drops the first two characters, whatever
  they are.
\<close>

definition verify_signature ::
  "('pk \<Rightarrow> bytes \<Rightarrow> bytes \<Rightarrow> bool) \<Rightarrow> ('sk, 'pk) TEESignatureGenerator \<Rightarrow> bytes \<Rightarrow> string
     \<Rightarrow> bool" where
  "verify_signature ec_verify self report_digest signature =
     (case bytes_fromhex (drop 2 signature) of
        None \<Rightarrow> False
      | Some sig_bytes \<Rightarrow>
          length report_digest = 32 \<and> ec_verify (public_key self) sig_bytes report_digest)"

section \<open>Structural equality of JSON values\<close>

text \<open>
  A Python dictionary has each key once; \<open>wf_json\<close> says so of every dictionary inside a
  value. \<open>same_up_to_key_order\<close> relates two values that differ in nothing but the order
  in which the keys of their dictionaries were inserted, at every depth: lists are compared
  item by item in order, dictionaries entry by entry whatever the order of the keys, and a
  scalar is related to itself only (\<^verbatim>\<open>1\<close>, \<^verbatim>\<open>1.0\<close> and \<^verbatim>\<open>True\<close> are three values
  here, \<^verbatim>\<open>0.0\<close> and \<^verbatim>\<open>-0.0\<close> two).
\<close>

fun wf_json :: "json \<Rightarrow> bool" where
  "wf_json (JList xs) = list_all wf_json xs"
| "wf_json (JDict kvs) = (distinct (map fst kvs) \<and> list_all (\<lambda>kv. wf_json (snd kv)) kvs)"
| "wf_json _ = True"

inductive same_up_to_key_order :: "json \<Rightarrow> json \<Rightarrow> bool" where
  same: "same_up_to_key_order v v"
| lists: "list_all2 same_up_to_key_order xs ys \<Longrightarrow> same_up_to_key_order (JList xs) (JList ys)"
| dicts: "list_all2 (\<lambda>p q. fst p = fst q \<and> same_up_to_key_order (snd p) (snd q)) xs zs \<Longrightarrow>
          mset zs = mset ys \<Longrightarrow> same_up_to_key_order (JDict xs) (JDict ys)"

text \<open>
  Structural equality as the specification words it: dictionaries compared whatever the
  order of their keys, lists item by item in order, scalars by value. Two scalars are
  equal by value as Python's \<^verbatim>\<open>==\<close> has it: numbers (bool, int, float) when they denote
  the same number, so \<^verbatim>\<open>1\<close>, \<^verbatim>\<open>1.0\<close> and \<^verbatim>\<open>True\<close> are equal, and \<^verbatim>\<open>0.0\<close> and
  \<^verbatim>\<open>-0.0\<close>; strings when they are the same string; \<^verbatim>\<open>None\<close> with itself.
\<close>

definition scalar_eq :: "json \<Rightarrow> json \<Rightarrow> bool" where
  "scalar_eq a b =
     (case (as_number a, as_number b) of
        (Some x, Some y) \<Rightarrow> float_le x y \<and> float_le y x
      | (None, None) \<Rightarrow> (case a of JNull \<Rightarrow> b = JNull | JStr s \<Rightarrow> b = JStr s | _ \<Rightarrow> False)
      | _ \<Rightarrow> False)"

inductive structurally_equal :: "json \<Rightarrow> json \<Rightarrow> bool" where
  scalars: "scalar_eq a b \<Longrightarrow> structurally_equal a b"
| lists: "list_all2 structurally_equal xs ys \<Longrightarrow> structurally_equal (JList xs) (JList ys)"
| dicts: "list_all2 (\<lambda>p q. fst p = fst q \<and> structurally_equal (snd p) (snd q)) xs zs \<Longrightarrow>
          mset zs = mset ys \<Longrightarrow> structurally_equal (JDict xs) (JDict ys)"

text \<open>
  A value whose serialization holds no separator: no dictionary with an entry and no list
  of two items or more.
\<close>

fun separator_free :: "json \<Rightarrow> bool" where
  "separator_free (JList xs) = (length xs \<le> 1 \<and> list_all separator_free xs)"
| "separator_free (JDict kvs) = (kvs = [])"
| "separator_free _ = True"

section \<open>Evidence bundles\<close>

text \<open>
  C10. \<^verbatim>\<open>create_evidence_bundle\<close> returns exactly the five entries version, timestamp,
  input, output and metadata, in this order; the version is the string 1.0; the timestamp
  is the value stored under \<^verbatim>\<open>timestamp\<close> in the metadata when there is one and the
  integer 0 when there is none; input, output and metadata are the arguments, unchanged.
\<close>

theorem create_evidence_bundle_fields:
  "map fst (create_evidence_bundle i out md) =
     [''version'', ''timestamp'', ''input'', ''output'', ''metadata'']
   \<and> map_of (create_evidence_bundle i out md) ''version'' = Some (JStr ''1.0'')
   \<and> (\<forall>t. map_of md ''timestamp'' = Some t \<longrightarrow>
          map_of (create_evidence_bundle i out md) ''timestamp'' = Some t)
   \<and> (map_of md ''timestamp'' = None \<longrightarrow>
          map_of (create_evidence_bundle i out md) ''timestamp'' = Some (JInt 0))
   \<and> map_of (create_evidence_bundle i out md) ''input'' = Some (JDict i)
   \<and> map_of (create_evidence_bundle i out md) ''output'' = Some (JDict out)
   \<and> map_of (create_evidence_bundle i out md) ''metadata'' = Some (JDict md)"
  by (simp add: create_evidence_bundle_def)

theorem create_evidence_bundle_fields_witness:
  "map_of (create_evidence_bundle [(''question'', JStr ''Test?'')] [] [(''timestamp'', JInt 1700000000)])
       ''timestamp'' = Some (JInt 1700000000)
   \<and> map_of (create_evidence_bundle [(''question'', JStr ''Test?'')] [] [(''model'', JStr ''gpt'')])
       ''timestamp'' = Some (JInt 0)"
  using create_evidence_bundle_fields [of "[(''question'', JStr ''Test?'')]" "[]"
          "[(''timestamp'', JInt 1700000000)]"]
        create_evidence_bundle_fields [of "[(''question'', JStr ''Test?'')]" "[]"
          "[(''model'', JStr ''gpt'')]"]
  by simp

section \<open>Public summaries\<close>

lemma cps_keys:
  "create_public_summary E m = Inr s \<Longrightarrow>
     map fst s = [''market_id'', ''outcome'', ''resolution_date'', ''oracle_version'',
                  ''evidence_type'', ''premium_available'', ''message'']"
  unfolding create_public_summary_def
  by (cases "case map_of E ''tee_attestation'' of None \<Rightarrow> JDict [] | Some a \<Rightarrow> a") auto

lemma cps_total:
  "map_of E ''tee_attestation'' = None \<or> (\<exists>a. map_of E ''tee_attestation'' = Some (JDict a))
     \<Longrightarrow> \<exists>s. create_public_summary E m = Inr s"
  unfolding create_public_summary_def by auto

lemma cps_frame_append:
  "k \<noteq> ''outcome'' \<Longrightarrow> k \<noteq> ''resolution_date'' \<Longrightarrow> k \<noteq> ''tee_attestation'' \<Longrightarrow>
     create_public_summary (E @ [(k, v)]) m = create_public_summary E m"
proof -
  assume a: "k \<noteq> ''outcome''" "k \<noteq> ''resolution_date''" "k \<noteq> ''tee_attestation''"
  have l: "\<And>q. q \<noteq> k \<Longrightarrow> map_of (E @ [(k, v)]) q = map_of E q"
    by (simp add: map_add_def split: option.splits)
  from a have h: "map_of (E @ [(k, v)]) ''outcome'' = map_of E ''outcome''"
    "map_of (E @ [(k, v)]) ''resolution_date'' = map_of E ''resolution_date''"
    "map_of (E @ [(k, v)]) ''tee_attestation'' = map_of E ''tee_attestation''"
    using l by metis+
  show ?thesis unfolding create_public_summary_def h by (rule refl)
qed

lemma cps_frame_cons:
  "k \<noteq> ''outcome'' \<Longrightarrow> k \<noteq> ''resolution_date'' \<Longrightarrow> k \<noteq> ''tee_attestation'' \<Longrightarrow>
     create_public_summary ((k, v) # E) m = create_public_summary E m"
proof -
  assume a: "k \<noteq> ''outcome''" "k \<noteq> ''resolution_date''" "k \<noteq> ''tee_attestation''"
  then have h: "map_of ((k, v) # E) ''outcome'' = map_of E ''outcome''"
    "map_of ((k, v) # E) ''resolution_date'' = map_of E ''resolution_date''"
    "map_of ((k, v) # E) ''tee_attestation'' = map_of E ''tee_attestation''"
    by auto
  show ?thesis unfolding create_public_summary_def h by (rule refl)
qed

text \<open>
  C5. Whenever \<^verbatim>\<open>_create_public_summary\<close> produces summaries for two evidence
  dictionaries and one market id, the two have the same keys, and these are the seven
  fixed keys market\_id, outcome, resolution\_date, oracle\_version, evidence\_type,
  premium\_available and message: never rationale, reasoning or sources, and never a key
  taken from the evidence. A summary is produced whenever the evidence has no
  \<^verbatim>\<open>tee_attestation\<close> entry or that entry is a dictionary, and an entry of the evidence
  under any other key than outcome, resolution\_date and tee\_attestation changes nothing.
\<close>

theorem create_public_summary_allow_list:
  "(create_public_summary E1 m = Inr s1 \<and> create_public_summary E2 m = Inr s2 \<longrightarrow>
      map fst s1 = map fst s2
      \<and> map fst s1 = [''market_id'', ''outcome'', ''resolution_date'', ''oracle_version'',
                       ''evidence_type'', ''premium_available'', ''message'']
      \<and> ''rationale'' \<notin> set (map fst s1) \<and> ''reasoning'' \<notin> set (map fst s1)
      \<and> ''sources'' \<notin> set (map fst s1))
   \<and> ((map_of E1 ''tee_attestation'' = None \<or> (\<exists>a. map_of E1 ''tee_attestation'' = Some (JDict a)))
        \<longrightarrow> (\<exists>s. create_public_summary E1 m = Inr s))
   \<and> (k \<notin> {''outcome'', ''resolution_date'', ''tee_attestation''} \<longrightarrow>
        create_public_summary (E1 @ [(k, v)]) m = create_public_summary E1 m
        \<and> create_public_summary ((k, v) # E1) m = create_public_summary E1 m)"
proof (intro conjI impI)
  assume a: "create_public_summary E1 m = Inr s1 \<and> create_public_summary E2 m = Inr s2"
  have k1: "map fst s1 = [''market_id'', ''outcome'', ''resolution_date'', ''oracle_version'',
                       ''evidence_type'', ''premium_available'', ''message'']"
    using a cps_keys [of E1 m s1] by blast
  have k2: "map fst s2 = [''market_id'', ''outcome'', ''resolution_date'', ''oracle_version'',
                       ''evidence_type'', ''premium_available'', ''message'']"
    using a cps_keys [of E2 m s2] by blast
  show "map fst s1 = map fst s2" by (simp only: k1 k2)
  show "map fst s1 = [''market_id'', ''outcome'', ''resolution_date'', ''oracle_version'',
                       ''evidence_type'', ''premium_available'', ''message'']" by (rule k1)
  show "''rationale'' \<notin> set (map fst s1)" unfolding k1 by simp
  show "''reasoning'' \<notin> set (map fst s1)" unfolding k1 by simp
  show "''sources'' \<notin> set (map fst s1)" unfolding k1 by simp
next
  assume "map_of E1 ''tee_attestation'' = None \<or> (\<exists>a. map_of E1 ''tee_attestation'' = Some (JDict a))"
  then show "\<exists>s. create_public_summary E1 m = Inr s" by (rule cps_total)
next
  assume "k \<notin> {''outcome'', ''resolution_date'', ''tee_attestation''}"
  then show "create_public_summary (E1 @ [(k, v)]) m = create_public_summary E1 m"
    by (simp add: cps_frame_append)
next
  assume "k \<notin> {''outcome'', ''resolution_date'', ''tee_attestation''}"
  then show "create_public_summary ((k, v) # E1) m = create_public_summary E1 m"
    by (simp add: cps_frame_cons)
qed

theorem create_public_summary_allow_list_witness:
  "create_public_summary
        [(''outcome'', JStr ''YES''), (''sources'', JList [JStr ''CoinGecko'']),
         (''reasoning'', JStr ''three sources agree''),
         (''tee_attestation'', JDict [(''version'', JStr ''2.0'')])] ''0xmarket123'' =
    Inr [(''market_id'', JStr ''0xmarket123''), (''outcome'', JStr ''YES''),
                (''resolution_date'', JNull), (''oracle_version'', JStr ''2.0''),
                (''evidence_type'', JStr ''public_summary''), (''premium_available'', JBool True),
                (''message'', JStr ''Full reasoning and sources available for premium subscribers'')]
   \<and> create_public_summary [(''outcome'', JStr ''YES''), (''rationale'', JStr ''secret'')] ''m''
       = create_public_summary [(''outcome'', JStr ''YES'')] ''m''
   \<and> create_public_summary [(''tee_attestation'', JStr ''v1'')] ''m'' = Inl AttributeError"
proof -
  have e: "create_public_summary
        [(''outcome'', JStr ''YES''), (''sources'', JList [JStr ''CoinGecko'']),
         (''reasoning'', JStr ''three sources agree''),
         (''tee_attestation'', JDict [(''version'', JStr ''2.0'')])] ''0xmarket123'' =
    Inr [(''market_id'', JStr ''0xmarket123''), (''outcome'', JStr ''YES''),
                (''resolution_date'', JNull), (''oracle_version'', JStr ''2.0''),
                (''evidence_type'', JStr ''public_summary''), (''premium_available'', JBool True),
                (''message'', JStr ''Full reasoning and sources available for premium subscribers'')]"
    by (simp add: create_public_summary_def)
  have n: "''rationale'' \<notin> {''outcome'', ''resolution_date'', ''tee_attestation''}" by simp
  have f: "create_public_summary ((''rationale'', JStr ''secret'') # [(''outcome'', JStr ''YES'')]) ''m''
       = create_public_summary [(''outcome'', JStr ''YES'')] ''m''"
    using create_public_summary_allow_list
          [of "[(''outcome'', JStr ''YES'')]" "''m''" "[]" "[]" "[]" "''rationale''" "JStr ''secret''"] n
    by blast
  have g: "create_public_summary [(''outcome'', JStr ''YES''), (''rationale'', JStr ''secret'')] ''m''
       = create_public_summary [(''outcome'', JStr ''YES'')] ''m''"
    using create_public_summary_allow_list
          [of "[(''outcome'', JStr ''YES'')]" "''m''" "[]" "[]" "[]" "''rationale''" "JStr ''secret''"] n
    by simp
  have h: "create_public_summary [(''tee_attestation'', JStr ''v1'')] ''m'' = Inl AttributeError"
    by (simp add: create_public_summary_def)
  show ?thesis using e g h by blast
qed

section \<open>Validation of the inference output\<close>

lemma vo_frame:
  assumes "map_of o1 ''resolution'' = map_of o2 ''resolution''"
    and "(map_of o1 ''sources'' = None) = (map_of o2 ''sources'' = None)"
    and "(map_of o1 ''rationale'' = None) = (map_of o2 ''rationale'' = None)"
  shows "validate_output o1 = validate_output o2"
  unfolding validate_output_def using assms by simp

lemma vo_accept:
  assumes "validate_output out = Inr True"
  shows "\<exists>r v c cf. map_of out ''resolution'' = Some (JDict r)
           \<and> map_of out ''sources'' \<noteq> None \<and> map_of out ''rationale'' \<noteq> None
           \<and> map_of r ''value'' = Some v \<and> map_of r ''confidence'' = Some c
           \<and> as_number c = Some cf \<and> float_le (Finite 0) cf \<and> float_le cf (Finite 1)
           \<and> (as_number v = Some (Finite 0) \<or> as_number v = Some (Finite 1))"
proof -
  from assms have p: "map_of out ''sources'' \<noteq> None" "map_of out ''rationale'' \<noteq> None"
    by (auto simp add: validate_output_def split: if_splits)
  from assms obtain res where r: "map_of out ''resolution'' = Some res"
    by (auto simp add: validate_output_def split: if_splits)
  from assms p r have a: "(case py_in ''value'' res of
             Inl e \<Rightarrow> Inl e
           | Inr has_value \<Rightarrow>
               if \<not> has_value then Inr False
               else (case py_in ''confidence'' res of
                  Inl e \<Rightarrow> Inl e
                | Inr has_confidence \<Rightarrow>
                    if \<not> has_confidence then Inr False
                    else (case py_getitem res ''confidence'' of
                       Inl e \<Rightarrow> Inl e
                     | Inr confidence \<Rightarrow>
                        (case as_number confidence of
                           None \<Rightarrow> Inl TypeError
                         | Some c \<Rightarrow>
                             if \<not> (float_le (Finite 0) c \<and> float_le c (Finite 1)) then Inr False
                             else (case py_getitem res ''value'' of
                                Inl e \<Rightarrow> Inl e
                              | Inr v \<Rightarrow>
                                  if as_number v \<noteq> Some (Finite 0) \<and> as_number v \<noteq> Some (Finite 1)
                                  then Inr False
                                  else Inr True))))) = Inr True"
    by (simp add: validate_output_def)
  from a obtain confidence where c: "py_getitem res ''confidence'' = Inr confidence"
    by (auto split: sum.splits if_splits)
  from a c obtain cf where cf: "as_number confidence = Some cf" "float_le (Finite 0) cf" "float_le cf (Finite 1)"
    by (auto split: sum.splits if_splits option.splits)
  from a c cf obtain v where v: "py_getitem res ''value'' = Inr v"
     "as_number v = Some (Finite 0) \<or> as_number v = Some (Finite 1)"
    by (auto split: sum.splits if_splits option.splits)
  from c obtain d where d: "res = JDict d" "map_of d ''confidence'' = Some confidence"
    by (auto simp add: py_getitem_def split: json.splits option.splits)
  from v d have "map_of d ''value'' = Some v"
    by (auto simp add: py_getitem_def split: option.splits)
  with p r d cf v show ?thesis by blast
qed

lemma vo_accept_conv:
  assumes "map_of out ''resolution'' = Some (JDict r)"
    and "map_of out ''sources'' \<noteq> None" and "map_of out ''rationale'' \<noteq> None"
    and "map_of r ''value'' = Some v" and "map_of r ''confidence'' = Some c"
    and "as_number c = Some cf" and "float_le (Finite 0) cf" and "float_le cf (Finite 1)"
    and "as_number v = Some (Finite 0) \<or> as_number v = Some (Finite 1)"
  shows "validate_output out = Inr True"
  using assms by (auto simp add: validate_output_def py_in_def py_getitem_def)

text \<open>
  C8, as the code has it. \<^verbatim>\<open>validate_output\<close> accepts an output exactly when
  resolution, sources and rationale are present, the resolution is a dictionary with a
  confidence between 0 and 1 and a value equal to 0 or 1. It never looks at what sources
  and rationale hold: two outputs with the same resolution that both have (or both lack)
  each of the two keys get the same verdict. So an empty list of sources, source entries
  without id, url or quote\_hash and an empty rationale are accepted with a valid
  resolution.
\<close>

theorem validate_output_checks_resolution_only:
  "(validate_output out = Inr True) =
     (\<exists>r v c cf. map_of out ''resolution'' = Some (JDict r)
           \<and> map_of out ''sources'' \<noteq> None \<and> map_of out ''rationale'' \<noteq> None
           \<and> map_of r ''value'' = Some v \<and> map_of r ''confidence'' = Some c
           \<and> as_number c = Some cf \<and> float_le (Finite 0) cf \<and> float_le cf (Finite 1)
           \<and> (as_number v = Some (Finite 0) \<or> as_number v = Some (Finite 1)))
   \<and> (map_of o1 ''resolution'' = map_of o2 ''resolution''
        \<and> (map_of o1 ''sources'' = None) = (map_of o2 ''sources'' = None)
        \<and> (map_of o1 ''rationale'' = None) = (map_of o2 ''rationale'' = None)
      \<longrightarrow> validate_output o1 = validate_output o2)"
proof (intro conjI impI iffI)
  assume "validate_output out = Inr True"
  then show "\<exists>r v c cf. map_of out ''resolution'' = Some (JDict r)
           \<and> map_of out ''sources'' \<noteq> None \<and> map_of out ''rationale'' \<noteq> None
           \<and> map_of r ''value'' = Some v \<and> map_of r ''confidence'' = Some c
           \<and> as_number c = Some cf \<and> float_le (Finite 0) cf \<and> float_le cf (Finite 1)
           \<and> (as_number v = Some (Finite 0) \<or> as_number v = Some (Finite 1))"
    by (rule vo_accept)
next
  assume "\<exists>r v c cf. map_of out ''resolution'' = Some (JDict r)
           \<and> map_of out ''sources'' \<noteq> None \<and> map_of out ''rationale'' \<noteq> None
           \<and> map_of r ''value'' = Some v \<and> map_of r ''confidence'' = Some c
           \<and> as_number c = Some cf \<and> float_le (Finite 0) cf \<and> float_le cf (Finite 1)
           \<and> (as_number v = Some (Finite 0) \<or> as_number v = Some (Finite 1))"
  then show "validate_output out = Inr True"
    using vo_accept_conv by blast
next
  assume h: "map_of o1 ''resolution'' = map_of o2 ''resolution''
        \<and> (map_of o1 ''sources'' = None) = (map_of o2 ''sources'' = None)
        \<and> (map_of o1 ''rationale'' = None) = (map_of o2 ''rationale'' = None)"
  show "validate_output o1 = validate_output o2"
    by (rule vo_frame) (use h in simp_all)
qed

theorem validate_output_checks_resolution_only_witness:
  "validate_output
     [(''resolution'', JDict [(''value'', JInt 1), (''confidence'', JFloat (Finite (85 / 100)))]),
      (''sources'', JList [JDict [(''id'', JStr ''src:a'')]]), (''rationale'', JStr ''threshold exceeded'')]
   = validate_output
     [(''resolution'', JDict [(''value'', JInt 1), (''confidence'', JFloat (Finite (85 / 100)))]),
      (''sources'', JList []), (''rationale'', JStr [])]"
  using validate_output_checks_resolution_only
    [of "[]"
        "[(''resolution'', JDict [(''value'', JInt 1), (''confidence'', JFloat (Finite (85 / 100)))]),
          (''sources'', JList [JDict [(''id'', JStr ''src:a'')]]), (''rationale'', JStr ''threshold exceeded'')]"
        "[(''resolution'', JDict [(''value'', JInt 1), (''confidence'', JFloat (Finite (85 / 100)))]),
          (''sources'', JList []), (''rationale'', JStr [])]"]
  by simp

text \<open>
  The claim as the specification states it fails: an output with a valid resolution, no
  sources at all and an empty rationale is accepted.
\<close>

theorem validate_output_accepts_empty_sources:
  "validate_output
     [(''resolution'', JDict [(''value'', JInt 1), (''confidence'', JFloat (Finite (85 / 100)))]),
      (''sources'', JList []), (''rationale'', JStr [])] = Inr True"
  by (simp add: validate_output_def py_in_def py_getitem_def as_number_def)

section \<open>Encryption and decryption of the evidence\<close>

lemma xor_loop_involution: "xor_loop key i (xor_loop key i bs) = bs"
  by (induction bs arbitrary: i) (simp_all add: xor.assoc)

lemma length_xor_loop: "length (xor_loop key i bs) = length bs"
  by (induction bs arbitrary: i) simp_all

lemma length_seal_header: "length (bytes_literal ''SEAL_ENC_V1:'') = 12"
  by (simp add: bytes_literal_def)

lemma length_digest_bytes: "length (digest_bytes w) = 32"
  by (simp add: digest_bytes_def)

lemma decrypt_simulated:
  "seal_policy_id cfg' = seal_policy_id cfg \<Longrightarrow>
   decrypt_evidence sha loads cfg' (simulate_seal_encryption sha cfg data m) m =
     (case loads data of Inl e \<Rightarrow> Inl (DecodeError e) | Inr evidence \<Rightarrow> Inr evidence)"
  by (simp add: decrypt_evidence_def simulate_seal_encryption_def Let_def length_seal_header
        xor_loop_involution)

lemma decrypt_no_header:
  "take 12 blob \<noteq> bytes_literal ''SEAL_ENC_V1:'' \<Longrightarrow>
   decrypt_evidence sha loads cfg blob m = Inl (ValueError ''Invalid encrypted blob format'')"
  by (simp add: decrypt_evidence_def)

lemma decrypt_header:
  "take 12 blob = bytes_literal ''SEAL_ENC_V1:'' \<Longrightarrow>
   decrypt_evidence sha loads cfg blob m =
     (case loads (xor_loop (digest_bytes (sha (utf8_encode (seal_policy_id cfg @ '':'' @ m)))) 0
                    (drop 12 blob)) of
        Inl e \<Rightarrow> Inl (DecodeError e) | Inr evidence \<Rightarrow> Inr evidence)"
  by (simp add: decrypt_evidence_def Let_def)

lemma decrypt_never_policy_violation:
  "decrypt_evidence sha loads cfg blob m \<noteq> Inl EncryptionPolicyViolation"
  by (simp add: decrypt_evidence_def Let_def split: sum.splits)

lemma decrypt_ignores_threshold:
  "decrypt_evidence sha loads (cfg\<lparr>threshold := t, key_servers := ks, seal_package_id := p\<rparr>) blob m
     = decrypt_evidence sha loads cfg blob m"
  by (simp add: decrypt_evidence_def)

lemma encrypt_blob:
  "create_public_summary E m = Inr s \<Longrightarrow>
   \<exists>ee. encrypt_evidence fr sha cfg E m = Inr ee \<and>
        encrypted_blob ee = simulate_seal_encryption sha cfg
           (utf8_encode (json_dumps fr
              \<lparr>sort_keys = False, item_separator = '','', key_separator = '': '', indent = Some ''  ''\<rparr>
              (JDict E))) m"
  by (simp add: encrypt_evidence_def Let_def)

text \<open>
  C3, as the code has it. For an evidence dictionary whose \<^verbatim>\<open>tee_attestation\<close> entry
  is absent or a dictionary, \<^verbatim>\<open>encrypt_evidence\<close> returns a package, and
  \<^verbatim>\<open>decrypt_evidence\<close> with the same market id and a configuration of the same
  policy id hands the standard library's decoder exactly the bytes that
  \<^verbatim>\<open>json.dumps(full_evidence, indent=2).encode('utf-8')\<close> produced: the result is the
  evidence whenever the library's decoder inverts its encoder on it.
\<close>

theorem encrypt_decrypt_round_trip:
  "(map_of E ''tee_attestation'' = None \<or> (\<exists>a. map_of E ''tee_attestation'' = Some (JDict a)))
   \<and> seal_policy_id cfg' = seal_policy_id cfg
   \<and> loads (utf8_encode (json_dumps fr
          \<lparr>sort_keys = False, item_separator = '','', key_separator = '': '', indent = Some ''  ''\<rparr>
          (JDict E))) = Inr (JDict E)
   \<longrightarrow> (\<exists>ee. encrypt_evidence fr sha cfg E m = Inr ee
           \<and> decrypt_evidence sha loads cfg' (encrypted_blob ee) m = Inr (JDict E))"
proof (intro impI, elim conjE)
  assume att: "map_of E ''tee_attestation'' = None \<or> (\<exists>a. map_of E ''tee_attestation'' = Some (JDict a))"
    and pol: "seal_policy_id cfg' = seal_policy_id cfg"
    and lib: "loads (utf8_encode (json_dumps fr
          \<lparr>sort_keys = False, item_separator = '','', key_separator = '': '', indent = Some ''  ''\<rparr>
          (JDict E))) = Inr (JDict E)"
  from att obtain s where "create_public_summary E m = Inr s"
    using cps_total by blast
  then obtain ee where ee: "encrypt_evidence fr sha cfg E m = Inr ee"
    and blob: "encrypted_blob ee = simulate_seal_encryption sha cfg
           (utf8_encode (json_dumps fr
              \<lparr>sort_keys = False, item_separator = '','', key_separator = '': '', indent = Some ''  ''\<rparr>
              (JDict E))) m"
    using encrypt_blob by blast
  have "decrypt_evidence sha loads cfg' (encrypted_blob ee) m = Inr (JDict E)"
    unfolding blob by (simp add: decrypt_simulated [OF pol] lib)
  with ee show "\<exists>ee. encrypt_evidence fr sha cfg E m = Inr ee
           \<and> decrypt_evidence sha loads cfg' (encrypted_blob ee) m = Inr (JDict E)"
    by blast
qed

theorem encrypt_decrypt_round_trip_witness:
  "\<exists>ee. encrypt_evidence (\<lambda>r. ''0.85'') (\<lambda>bs. 0)
          \<lparr>seal_package_id = ''0x1234'', seal_policy_id = ''0x5678'', threshold = 2,
           key_servers = [''https://seal-server-1.example.com'']\<rparr>
          [(''outcome'', JStr ''YES''), (''tee_attestation'', JDict [(''version'', JStr ''1.0'')])]
          ''0xmarket123'' = Inr ee
     \<and> decrypt_evidence (\<lambda>bs. 0)
          (\<lambda>bs. if bs = utf8_encode (json_dumps (\<lambda>r. ''0.85'')
                \<lparr>sort_keys = False, item_separator = '','', key_separator = '': '', indent = Some ''  ''\<rparr>
                (JDict [(''outcome'', JStr ''YES''), (''tee_attestation'', JDict [(''version'', JStr ''1.0'')])]))
               then Inr (JDict [(''outcome'', JStr ''YES''), (''tee_attestation'', JDict [(''version'', JStr ''1.0'')])])
               else Inl JSONDecodeError)
          \<lparr>seal_package_id = ''0x1234'', seal_policy_id = ''0x5678'', threshold = 3, key_servers = []\<rparr>
          (encrypted_blob ee) ''0xmarket123''
        = Inr (JDict [(''outcome'', JStr ''YES''), (''tee_attestation'', JDict [(''version'', JStr ''1.0'')])])"
  using encrypt_decrypt_round_trip
    [where E = "[(''outcome'', JStr ''YES''), (''tee_attestation'', JDict [(''version'', JStr ''1.0'')])]"
       and cfg' = "\<lparr>seal_package_id = ''0x1234'', seal_policy_id = ''0x5678'', threshold = 3, key_servers = []\<rparr>"
       and cfg = "\<lparr>seal_package_id = ''0x1234'', seal_policy_id = ''0x5678'', threshold = 2,
           key_servers = [''https://seal-server-1.example.com'']\<rparr>"
       and loads = "\<lambda>bs. if bs = utf8_encode (json_dumps (\<lambda>r. ''0.85'')
                \<lparr>sort_keys = False, item_separator = '','', key_separator = '': '', indent = Some ''  ''\<rparr>
                (JDict [(''outcome'', JStr ''YES''), (''tee_attestation'', JDict [(''version'', JStr ''1.0'')])]))
               then Inr (JDict [(''outcome'', JStr ''YES''), (''tee_attestation'', JDict [(''version'', JStr ''1.0'')])])
               else Inl JSONDecodeError"
       and fr = "\<lambda>r. ''0.85''" and sha = "\<lambda>bs. 0" and m = "''0xmarket123''"]
  by simp

text \<open>
  The round trip does not hold for every JSON-representable evidence: when the value under
  \<^verbatim>\<open>tee_attestation\<close> is not a dictionary, \<^verbatim>\<open>encrypt_evidence\<close> raises
  AttributeError while it builds the public summary, and there is no blob to decrypt.
\<close>

theorem encrypt_evidence_raises_on_attestation:
  "\<forall>fr sha cfg m. encrypt_evidence fr sha cfg [(''outcome'', JStr ''YES''), (''tee_attestation'', JStr ''0xdef456'')] m
      = Inl AttributeError"
  by (simp add: encrypt_evidence_def create_public_summary_def)

text \<open>
  C7, as the code has it. \<^verbatim>\<open>decrypt_evidence\<close> takes no key material and checks no
  threshold: it never fails with EncryptionPolicyViolation, its result does not depend on
  the threshold, the key servers or the package id of the configuration, a blob that
  starts with the header is decrypted and handed to the decoder, any other blob is a
  ValueError, and the blob \<^verbatim>\<open>_simulate_seal_encryption\<close> makes of some bytes decrypts
  to what the decoder returns for these bytes.
\<close>

theorem decrypt_evidence_not_policy_gated:
  "decrypt_evidence sha loads cfg blob m \<noteq> Inl EncryptionPolicyViolation
   \<and> decrypt_evidence sha loads (cfg\<lparr>threshold := t, key_servers := ks, seal_package_id := p\<rparr>) blob m
       = decrypt_evidence sha loads cfg blob m
   \<and> (take 12 blob = bytes_literal ''SEAL_ENC_V1:'' \<longrightarrow>
        decrypt_evidence sha loads cfg blob m =
          (case loads (xor_loop (digest_bytes (sha (utf8_encode (seal_policy_id cfg @ '':'' @ m)))) 0
                         (drop 12 blob)) of
             Inl e \<Rightarrow> Inl (DecodeError e) | Inr evidence \<Rightarrow> Inr evidence))
   \<and> (take 12 blob \<noteq> bytes_literal ''SEAL_ENC_V1:'' \<longrightarrow>
        decrypt_evidence sha loads cfg blob m = Inl (ValueError ''Invalid encrypted blob format''))
   \<and> decrypt_evidence sha loads cfg (simulate_seal_encryption sha cfg data m) m =
        (case loads data of Inl e \<Rightarrow> Inl (DecodeError e) | Inr evidence \<Rightarrow> Inr evidence)"
proof (intro conjI impI)
  show "decrypt_evidence sha loads cfg blob m \<noteq> Inl EncryptionPolicyViolation"
    by (rule decrypt_never_policy_violation)
  show "decrypt_evidence sha loads (cfg\<lparr>threshold := t, key_servers := ks, seal_package_id := p\<rparr>) blob m
       = decrypt_evidence sha loads cfg blob m"
    by (rule decrypt_ignores_threshold)
  show "decrypt_evidence sha loads cfg (simulate_seal_encryption sha cfg data m) m =
        (case loads data of Inl e \<Rightarrow> Inl (DecodeError e) | Inr evidence \<Rightarrow> Inr evidence)"
    by (rule decrypt_simulated) (rule refl)
next
  assume "take 12 blob = bytes_literal ''SEAL_ENC_V1:''"
  then show "decrypt_evidence sha loads cfg blob m =
          (case loads (xor_loop (digest_bytes (sha (utf8_encode (seal_policy_id cfg @ '':'' @ m)))) 0
                         (drop 12 blob)) of
             Inl e \<Rightarrow> Inl (DecodeError e) | Inr evidence \<Rightarrow> Inr evidence)"
    by (rule decrypt_header)
next
  assume "take 12 blob \<noteq> bytes_literal ''SEAL_ENC_V1:''"
  then show "decrypt_evidence sha loads cfg blob m = Inl (ValueError ''Invalid encrypted blob format'')"
    by (rule decrypt_no_header)
qed

theorem decrypt_evidence_not_policy_gated_witness:
  "decrypt_evidence (\<lambda>bs. 0) (\<lambda>bs. Inl JSONDecodeError)
      \<lparr>seal_package_id = ''0x1234'', seal_policy_id = ''0x5678'', threshold = 2, key_servers = []\<rparr>
      (bytes_literal ''SEAL_ENC_V1:'') ''0xmarket123'' = Inl (DecodeError JSONDecodeError)
   \<and> decrypt_evidence (\<lambda>bs. 0) (\<lambda>bs. Inl JSONDecodeError)
      \<lparr>seal_package_id = ''0x1234'', seal_policy_id = ''0x5678'', threshold = 2, key_servers = []\<rparr>
      (bytes_literal ''SEAL_ENC'') ''0xmarket123'' = Inl (ValueError ''Invalid encrypted blob format'')"
proof -
  have h: "take 12 (bytes_literal ''SEAL_ENC_V1:'') = bytes_literal ''SEAL_ENC_V1:''"
    by (simp add: bytes_literal_def)
  have n: "take 12 (bytes_literal ''SEAL_ENC'') \<noteq> bytes_literal ''SEAL_ENC_V1:''"
    by (simp add: bytes_literal_def)
  show ?thesis
    using decrypt_evidence_not_policy_gated
      [where sha = "\<lambda>bs. 0" and loads = "\<lambda>bs. Inl JSONDecodeError"
         and cfg = "\<lparr>seal_package_id = ''0x1234'', seal_policy_id = ''0x5678'', threshold = 2, key_servers = []\<rparr>"
         and blob = "bytes_literal ''SEAL_ENC_V1:''" and m = "''0xmarket123''"] h
       decrypt_evidence_not_policy_gated
      [where sha = "\<lambda>bs. 0" and loads = "\<lambda>bs. Inl JSONDecodeError"
         and cfg = "\<lparr>seal_package_id = ''0x1234'', seal_policy_id = ''0x5678'', threshold = 2, key_servers = []\<rparr>"
         and blob = "bytes_literal ''SEAL_ENC''" and m = "''0xmarket123''"] n
    by simp
qed

text \<open>
  The claim as the specification states it fails: under a policy with threshold 2 and no
  key server at all, a call with nothing but the blob and the market id does not fail with
  EncryptionPolicyViolation; it returns whatever the decoder makes of the plaintext.
\<close>

theorem decrypt_evidence_returns_plaintext_unconditionally:
  \<open>\<forall>sha loads.
     decrypt_evidence sha loads
        \<lparr>seal_package_id = ''0x1234'', seal_policy_id = ''0x5678'', threshold = 2, key_servers = []\<rparr>
        (simulate_seal_encryption sha
           \<lparr>seal_package_id = ''0x1234'', seal_policy_id = ''0x5678'', threshold = 2, key_servers = []\<rparr>
           (bytes_literal ''{"outcome": "YES"}'') ''0xmarket123'')
        ''0xmarket123''
      = (case loads (bytes_literal ''{"outcome": "YES"}'') of
           Inl e \<Rightarrow> Inl (DecodeError e) | Inr evidence \<Rightarrow> Inr evidence)
   \<and> decrypt_evidence sha loads
        \<lparr>seal_package_id = ''0x1234'', seal_policy_id = ''0x5678'', threshold = 2, key_servers = []\<rparr>
        (simulate_seal_encryption sha
           \<lparr>seal_package_id = ''0x1234'', seal_policy_id = ''0x5678'', threshold = 2, key_servers = []\<rparr>
           (bytes_literal ''{"outcome": "YES"}'') ''0xmarket123'')
        ''0xmarket123'' \<noteq> Inl EncryptionPolicyViolation\<close>
  by (simp add: decrypt_simulated split: sum.splits)

section \<open>The report digest\<close>

subsection \<open>UTF-8\<close>

lemma unat_byte: "x < 256 \<Longrightarrow> unat (of_nat x :: byte) = x"
  by (simp add: unat_of_nat)

lemma utf8_char_unat:
  "map unat (utf8_char c) =
     (if (of_char c :: nat) < 128 then [of_char c]
      else [192 + of_char c div 64, 128 + of_char c mod 64])"
proof -
  have b: "(of_char c :: nat) < 256" by simp
  then have b1: "192 + (of_char c :: nat) div 64 < 256" by arith
  have b2: "128 + (of_char c :: nat) mod 64 < 256" by arith
  show ?thesis
  proof (cases "(of_char c :: nat) < 128")
    case True
    then have "utf8_char c = [of_nat (of_char c)]" by (simp add: utf8_char_def Let_def)
    with True b show ?thesis by (simp only: list.map unat_byte if_True)
  next
    case False
    then have "utf8_char c = [of_nat (192 + of_char c div 64), of_nat (128 + of_char c mod 64)]"
      by (simp only: utf8_char_def Let_def if_False)
    with False b1 b2 show ?thesis by (simp only: list.map unat_byte if_False)
  qed
qed

lemma utf8_char_nonempty: "utf8_char c \<noteq> []"
  by (simp add: utf8_char_def Let_def)

lemma utf8_char_inj_append:
  assumes "utf8_char c @ r = utf8_char d @ r'"
  shows "c = d \<and> r = r'"
proof -
  from assms have "map unat (utf8_char c @ r) = map unat (utf8_char d @ r')" by simp
  then have e: "map unat (utf8_char c) @ map unat r = map unat (utf8_char d) @ map unat r'"
    by simp
  define a where "a = (of_char c :: nat)"
  define b where "b = (of_char d :: nat)"
  from e have e': "(if a < 128 then [a] else [192 + a div 64, 128 + a mod 64]) @ map unat r
      = (if b < 128 then [b] else [192 + b div 64, 128 + b mod 64]) @ map unat r'"
    unfolding utf8_char_unat a_def b_def .
  have ba: "a < 256" and bb: "b < 256" by (simp_all add: a_def b_def)
  have "a = b"
  proof (cases "a < 128")
    case True
    show ?thesis
    proof (cases "b < 128")
      case b: True
      with True e' show ?thesis by simp
    next
      case b: False
      with True e' have "a = 192 + b div 64" by simp
      with True show ?thesis by simp
    qed
  next
    case False
    show ?thesis
    proof (cases "b < 128")
      case b: True
      with False e' have "192 + a div 64 = b" by simp
      with b show ?thesis by simp
    next
      case b: False
      with False e' have dm: "a div 64 = b div 64" "a mod 64 = b mod 64" by simp_all
      have "a = 64 * (a div 64) + a mod 64" by simp
      also have "\<dots> = 64 * (b div 64) + b mod 64" by (simp only: dm)
      also have "\<dots> = b" by simp
      finally show ?thesis .
    qed
  qed
  then have cd: "c = d" by (simp add: a_def b_def)
  with assms show ?thesis by simp
qed

lemma utf8_encode_inj: "utf8_encode s = utf8_encode t \<Longrightarrow> s = t"
proof (induction s arbitrary: t)
  case Nil
  show ?case
  proof (cases t)
    case Nil then show ?thesis by simp
  next
    case (Cons d ds)
    have "utf8_char d \<noteq> []" by (rule utf8_char_nonempty)
    with Nil.prems Cons show ?thesis by (simp add: utf8_encode_def)
  qed
next
  case (Cons c cs)
  show ?case
  proof (cases t)
    case Nil
    have "utf8_char c \<noteq> []" by (rule utf8_char_nonempty)
    with Cons.prems Nil show ?thesis by (simp add: utf8_encode_def)
  next
    case t: (Cons d ds)
    with Cons.prems have "utf8_char c @ utf8_encode cs = utf8_char d @ utf8_encode ds"
      by (simp add: utf8_encode_def)
    then have "c = d \<and> utf8_encode cs = utf8_encode ds"
      by (rule utf8_char_inj_append)
    with Cons.IH t show ?thesis by simp
  qed
qed

subsection \<open>Joining with a separator\<close>

lemma append_sep_inj:
  "c \<notin> set x \<Longrightarrow> c \<notin> set y \<Longrightarrow> x @ c # r = y @ c # r' \<Longrightarrow> x = y \<and> r = r'"
proof (induction x arbitrary: y)
  case Nil
  then show ?case by (cases y) auto
next
  case (Cons a x)
  then show ?case by (cases y) auto
qed

lemma join_inj:
  "length xs = length ys \<Longrightarrow> \<forall>x\<in>set xs. c \<notin> set x \<Longrightarrow> \<forall>y\<in>set ys. c \<notin> set y \<Longrightarrow>
     join (c # sep) xs = join (c # sep) ys \<Longrightarrow> xs = ys"
proof (induction xs ys rule: list_induct2)
  case Nil
  show ?case by simp
next
  case (Cons x xs y ys)
  show ?case
  proof (cases xs)
    case Nil
    with Cons.hyps have "ys = []" by simp
    with Nil Cons.prems show ?thesis by simp
  next
    case xs: (Cons x2 xs')
    with Cons.hyps obtain y2 ys' where ys: "ys = y2 # ys'" by (cases ys) auto
    from Cons.prems xs ys
    have "x @ c # (sep @ join (c # sep) xs) = y @ c # (sep @ join (c # sep) ys)" by simp
    moreover from Cons.prems have "c \<notin> set x" "c \<notin> set y" by simp_all
    ultimately have "x = y \<and> sep @ join (c # sep) xs = sep @ join (c # sep) ys"
      by (intro append_sep_inj)
    with Cons.IH Cons.prems show ?thesis by simp
  qed
qed

subsection \<open>Decimal numerals\<close>

lemma of_char_digit_char: "d < 10 \<Longrightarrow> (of_char (digit_char d) :: nat) = 48 + d"
  by (simp add: digit_char_def)

lemma str_nat_digits: "ch \<in> set (str_nat n) \<Longrightarrow> 48 \<le> (of_char ch :: nat) \<and> (of_char ch :: nat) \<le> 57"
proof (induction n rule: str_nat.induct)
  case (1 n)
  show ?case
  proof (cases "n < 10")
    case True
    with "1.prems" have "ch = digit_char n" by (simp add: str_nat.simps [of n])
    with True show ?thesis by (simp add: of_char_digit_char)
  next
    case False
    with "1.prems" have "ch \<in> set (str_nat (n div 10)) \<or> ch = digit_char (n mod 10)"
      by (auto simp add: str_nat.simps [of n])
    then show ?thesis
    proof
      assume "ch \<in> set (str_nat (n div 10))"
      with False "1.IH" show ?thesis by simp
    next
      assume "ch = digit_char (n mod 10)"
      then show ?thesis by (simp add: of_char_digit_char)
    qed
  qed
qed

lemma str_nat_value: "foldl (\<lambda>a ch. 10 * a + ((of_char ch :: nat) - 48)) 0 (str_nat n) = n"
proof (induction n rule: str_nat.induct)
  case (1 n)
  show ?case
  proof (cases "n < 10")
    case True
    then show ?thesis by (simp add: str_nat.simps [of n] of_char_digit_char)
  next
    case False
    with "1.IH" show ?thesis by (simp add: str_nat.simps [of n] of_char_digit_char)
  qed
qed

lemma str_nat_inj: "str_nat a = str_nat b \<Longrightarrow> a = b"
proof -
  assume e: "str_nat a = str_nat b"
  have "a = foldl (\<lambda>a ch. 10 * a + ((of_char ch :: nat) - 48)) 0 (str_nat a)"
    by (simp only: str_nat_value)
  also have "\<dots> = foldl (\<lambda>a ch. 10 * a + ((of_char ch :: nat) - 48)) 0 (str_nat b)"
    by (simp only: e)
  also have "\<dots> = b" by (simp only: str_nat_value)
  finally show ?thesis .
qed

lemma str_nat_nonempty: "str_nat n \<noteq> []"
  by (simp add: str_nat.simps [of n])

lemma str_nat_no_minus: "CHR ''-'' \<notin> set (str_nat n)"
  using str_nat_digits [of "CHR ''-''" n] by auto

lemma str_nat_hd: "hd (str_nat n) \<noteq> CHR ''-''"
proof -
  have "hd (str_nat n) \<in> set (str_nat n)" by (simp add: str_nat_nonempty)
  with str_nat_no_minus [of n] show ?thesis by auto
qed

lemma str_int_inj: "str_int a = str_int b \<Longrightarrow> a = b"
proof -
  assume e: "str_int a = str_int b"
  show ?thesis
  proof (cases "a < 0")
    case True
    show ?thesis
    proof (cases "b < 0")
      case b: True
      with True e have "str_nat (nat (- a)) = str_nat (nat (- b))" by (simp add: str_int_def)
      then have "nat (- a) = nat (- b)" by (rule str_nat_inj)
      with True b show ?thesis by simp
    next
      case b: False
      with True e have "str_nat (nat b) = CHR ''-'' # str_nat (nat (- a))" by (simp add: str_int_def)
      then have "hd (str_nat (nat b)) = CHR ''-''" by simp
      with str_nat_hd [of "nat b"] show ?thesis by simp
    qed
  next
    case False
    show ?thesis
    proof (cases "b < 0")
      case b: True
      with False e have "str_nat (nat a) = CHR ''-'' # str_nat (nat (- b))" by (simp add: str_int_def)
      then have "hd (str_nat (nat a)) = CHR ''-''" by simp
      with str_nat_hd [of "nat a"] show ?thesis by simp
    next
      case b: False
      with False e have "str_nat (nat a) = str_nat (nat b)" by (simp add: str_int_def)
      then have "nat a = nat b" by (rule str_nat_inj)
      with False b show ?thesis by simp
    qed
  qed
qed

lemma str_int_no_bar: "CHR ''|'' \<notin> set (str_int i)"
  using str_nat_digits [of "CHR ''|''"] by (auto simp add: str_int_def)

text \<open>
  C1, as the code has it. The bytes \<^verbatim>\<open>create_report_digest\<close> hashes determine the
  eight fields when none of the seven string fields holds the character \<^verbatim>\<open>|\<close> (the
  timestamp, printed in decimal, never does): two field tuples of this kind with the same
  serialization are the same tuple.
\<close>

theorem digest_string_injective_without_delimiter:
  assumes "\<forall>s \<in> set [h_in, h_out, blob_id, blob_hash, nonce, enclave_id self, mrenclave self].
             CHR ''|'' \<notin> set s"
    and "\<forall>s \<in> set [h_in', h_out', blob_id', blob_hash', nonce', enclave_id self', mrenclave self'].
             CHR ''|'' \<notin> set s"
    and "utf8_encode (digest_string self h_in h_out blob_id blob_hash timestamp nonce)
         = utf8_encode (digest_string self' h_in' h_out' blob_id' blob_hash' timestamp' nonce')"
  shows "h_in = h_in' \<and> h_out = h_out' \<and> blob_id = blob_id' \<and> blob_hash = blob_hash'
         \<and> timestamp = timestamp' \<and> nonce = nonce'
         \<and> enclave_id self = enclave_id self' \<and> mrenclave self = mrenclave self'"
proof -
  let ?xs = "[h_in, h_out, blob_id, blob_hash, str_int timestamp, nonce,
              enclave_id self, mrenclave self]"
  let ?ys = "[h_in', h_out', blob_id', blob_hash', str_int timestamp', nonce',
              enclave_id self', mrenclave self']"
  from assms(3) have "digest_string self h_in h_out blob_id blob_hash timestamp nonce
         = digest_string self' h_in' h_out' blob_id' blob_hash' timestamp' nonce'"
    by (rule utf8_encode_inj)
  then have j: "join (CHR ''|'' # ''|'') ?xs = join (CHR ''|'' # ''|'') ?ys"
    by (simp only: digest_string_def Let_def)
  have l: "length ?xs = length ?ys" by simp
  from assms(1) have a: "\<forall>x\<in>set ?xs. CHR ''|'' \<notin> set x"
    using str_int_no_bar [of timestamp] by simp
  from assms(2) have b: "\<forall>y\<in>set ?ys. CHR ''|'' \<notin> set y"
    using str_int_no_bar [of timestamp'] by simp
  from l a b j have "?xs = ?ys" by (rule join_inj)
  then have "h_in = h_in'" "h_out = h_out'" "blob_id = blob_id'" "blob_hash = blob_hash'"
    "str_int timestamp = str_int timestamp'" "nonce = nonce'"
    "enclave_id self = enclave_id self'" "mrenclave self = mrenclave self'"
    by simp_all
  then show ?thesis using str_int_inj by blast
qed

theorem digest_string_injective_without_delimiter_witness:
  "utf8_encode (digest_string
       \<lparr>enclave_id = ''0xENC'', enclave_pubkey = ''0xPUB'', mrenclave = ''0xMR'',
        private_key = (), public_key = ()\<rparr>
       ''0x11'' ''0x22'' ''blobA'' ''0x33'' 1700000000 ''0x44'')
   \<noteq> utf8_encode (digest_string
       \<lparr>enclave_id = ''0xENC'', enclave_pubkey = ''0xPUB'', mrenclave = ''0xMR'',
        private_key = (), public_key = ()\<rparr>
       ''0x11'' ''0x22'' ''blobA'' ''0x34'' 1700000000 ''0x44'')"
proof
  assume e: "utf8_encode (digest_string
       \<lparr>enclave_id = ''0xENC'', enclave_pubkey = ''0xPUB'', mrenclave = ''0xMR'',
        private_key = (), public_key = ()\<rparr>
       ''0x11'' ''0x22'' ''blobA'' ''0x33'' 1700000000 ''0x44'')
   = utf8_encode (digest_string
       \<lparr>enclave_id = ''0xENC'', enclave_pubkey = ''0xPUB'', mrenclave = ''0xMR'',
        private_key = (), public_key = ()\<rparr>
       ''0x11'' ''0x22'' ''blobA'' ''0x34'' 1700000000 ''0x44'')"
  have "''0x33'' = ''0x34''"
    using digest_string_injective_without_delimiter [OF _ _ e] by simp
  then show False by simp
qed

text \<open>
  The claim as the specification states it fails: the components are joined with the raw
  delimiter \<^verbatim>\<open>||\<close>, so a blob id that ends with a delimiter and the start of a hash
  serializes like a shorter blob id followed by a longer hash. The two field tuples differ,
  the strings joined are equal, and so are the digests, whatever the hash function.
\<close>

theorem digest_string_delimiter_collision:
  "\<forall>sha256 (self :: (unit, unit) TEESignatureGenerator).
     (''blobA||0xaa'', ''0xbb'') \<noteq> (''blobA'', ''0xaa||0xbb'')
   \<and> utf8_encode (digest_string self ''0x11'' ''0x22'' ''blobA||0xaa'' ''0xbb'' 1700000000 ''0x44'')
     = utf8_encode (digest_string self ''0x11'' ''0x22'' ''blobA'' ''0xaa||0xbb'' 1700000000 ''0x44'')
   \<and> create_report_digest sha256 self ''0x11'' ''0x22'' ''blobA||0xaa'' ''0xbb'' 1700000000 ''0x44''
     = create_report_digest sha256 self ''0x11'' ''0x22'' ''blobA'' ''0xaa||0xbb'' 1700000000 ''0x44''"
  by (simp add: create_report_digest_def digest_string_def)

section \<open>Canonical hashing\<close>

lemma insort_key_rel:
  assumes "list_all2 R xs zs" and "R x z"
    and "\<And>p q. R p q \<Longrightarrow> fst p = fst q"
  shows "list_all2 R (insort_key fst x xs) (insort_key fst z zs)"
  using assms(1)
proof (induction rule: list_all2_induct)
  case Nil
  from assms(2) show ?case by simp
next
  case (Cons p ps q qs)
  from assms(3) [OF Cons.hyps(1)] assms(3) [OF assms(2)]
  have k: "fst p = fst q" "fst x = fst z" .
  with Cons assms(2) show ?case by simp
qed

lemma sort_key_rel:
  assumes "list_all2 R xs zs" and "\<And>p q. R p q \<Longrightarrow> fst p = fst q"
  shows "list_all2 R (sort_key fst xs) (sort_key fst zs)"
  using assms(1)
proof (induction rule: list_all2_induct)
  case Nil
  show ?case by simp
next
  case (Cons p ps q qs)
  then show ?case by (simp add: sort_key_def insort_key_rel [OF _ _ assms(2)])
qed

lemma filter_key_distinct:
  "distinct (map fst l) \<Longrightarrow> k \<in> set l \<Longrightarrow> filter (\<lambda>x. fst k = fst x) l = [k]"
proof (induction l)
  case Nil
  then show ?case by simp
next
  case (Cons a l)
  show ?case
  proof (cases "k = a")
    case True
    from Cons.prems have "\<forall>x\<in>set l. fst x \<noteq> fst a" by (auto simp add: image_iff)
    then have "filter (\<lambda>x. fst a = fst x) l = []" by (auto simp add: filter_empty_conv)
    with True show ?thesis by simp
  next
    case False
    with Cons.prems have kin: "k \<in> set l" by simp
    with Cons.prems have "fst k \<noteq> fst a" by (auto simp add: image_iff)
    with Cons.IH Cons.prems kin show ?thesis by simp
  qed
qed

lemma sort_key_perm_distinct:
  assumes "mset zs = mset ys" and "distinct (map fst ys)"
  shows "sort_key fst zs = sort_key fst ys"
proof -
  have m: "mset (sort_key fst zs) = mset ys" using assms(1) by simp
  from assms(1) have "mset (map fst zs) = mset (map fst ys)" by (metis mset_map)
  with assms(2) have dz: "distinct (map fst zs)" by (metis mset_eq_imp_distinct_iff)
  have "mset (map fst (sort_key fst zs)) = mset (map fst zs)" by simp
  with dz have ds: "distinct (map fst (sort_key fst zs))" by (metis mset_eq_imp_distinct_iff)
  have s: "set (sort_key fst zs) = set ys" using assms(1) by (metis mset_eq_setD set_sort)
  have "sort_key fst ys = sort_key fst zs"
  proof (rule properties_for_sort_key)
    show "mset (sort_key fst zs) = mset ys" by (rule m)
    show "sorted (map fst (sort_key fst zs))" by simp
    fix k assume k: "k \<in> set (sort_key fst zs)"
    then have "filter (\<lambda>x. fst k = fst x) (sort_key fst zs) = [k]"
      using ds by (rule filter_key_distinct [rotated])
    moreover from k s have "k \<in> set ys" by simp
    then have "filter (\<lambda>x. fst k = fst x) ys = [k]"
      using assms(2) by (rule filter_key_distinct [rotated])
    ultimately show "filter (\<lambda>x. fst k = fst x) (sort_key fst zs) = filter (\<lambda>x. fst k = fst x) ys"
      by simp
  qed
  then show ?thesis by simp
qed

lemma map_rel_eq:
  assumes "list_all2 R xs ys" and "\<And>x y. R x y \<Longrightarrow> x \<in> set xs \<Longrightarrow> y \<in> set ys \<Longrightarrow> f x = g y"
  shows "map f xs = map g ys"
  using assms
proof (induction rule: list_all2_induct)
  case Nil
  show ?case by simp
next
  case (Cons x xs y ys)
  then show ?case by simp
qed

lemma iterencode_key_order:
  assumes "same_up_to_key_order a b"
  shows "wf_json a \<longrightarrow> wf_json b \<longrightarrow> sort_keys opts \<longrightarrow>
           (\<forall>level. iterencode fr opts level a = iterencode fr opts level b)"
  using assms
proof (induction rule: same_up_to_key_order.induct)
  case (same v)
  show ?case by simp
next
  case (lists xs ys)
  show ?case
  proof (intro impI allI)
    fix level
    assume wa: "wf_json (JList xs)" and wb: "wf_json (JList ys)" and sk: "sort_keys opts"
    have len: "length xs = length ys" using lists.IH by (rule list_all2_lengthD)
    have m: "map (iterencode fr opts (level + 1)) xs = map (iterencode fr opts (level + 1)) ys"
    proof (rule map_rel_eq [OF lists.IH])
      fix x y
      assume r: "same_up_to_key_order x y \<and>
                 (wf_json x \<longrightarrow> wf_json y \<longrightarrow> sort_keys opts \<longrightarrow>
                    (\<forall>level. iterencode fr opts level x = iterencode fr opts level y))"
        and "x \<in> set xs" and "y \<in> set ys"
      with wa wb have "wf_json x" "wf_json y" by (simp_all add: list_all_iff)
      with r sk show "iterencode fr opts (level + 1) x = iterencode fr opts (level + 1) y" by blast
    qed
    from len have e: "(xs = []) = (ys = [])" by auto
    show "iterencode fr opts level (JList xs) = iterencode fr opts level (JList ys)"
      by (simp only: iterencode.simps m e)
  qed
next
  case (dicts xs zs ys)
  show ?case
  proof (intro impI allI)
    fix level
    assume wa: "wf_json (JDict xs)" and wb: "wf_json (JDict ys)" and sk: "sort_keys opts"
    let ?R = "\<lambda>p q. fst p = fst q \<and> same_up_to_key_order (snd p) (snd q) \<and>
                 (wf_json (snd p) \<longrightarrow> wf_json (snd q) \<longrightarrow> sort_keys opts \<longrightarrow>
                    (\<forall>level. iterencode fr opts level (snd p) = iterencode fr opts level (snd q)))"
    let ?g = "\<lambda>kv. encode_basestring_ascii (fst kv) @ key_separator opts
                              @ iterencode fr opts (level + 1) (snd kv)"
    from dicts.IH have rel: "list_all2 ?R xs zs" by simp
    have len: "length xs = length zs" using rel by (rule list_all2_lengthD)
    from dicts.hyps have "length zs = length ys" by (metis size_mset)
    with len have e: "(xs = []) = (ys = [])" by auto
    from wb have dy: "distinct (map fst ys)" by simp
    have sz: "sort_key fst zs = sort_key fst ys"
      using dicts.hyps dy by (rule sort_key_perm_distinct)
    have srel: "list_all2 ?R (sort_key fst xs) (sort_key fst zs)"
      using rel by (rule sort_key_rel) simp
    have "map ?g (sort_key fst xs) = map ?g (sort_key fst zs)"
    proof (rule map_rel_eq [OF srel])
      fix p q
      assume r: "?R p q" and p: "p \<in> set (sort_key fst xs)" and q: "q \<in> set (sort_key fst zs)"
      from p wa have "wf_json (snd p)" by (simp add: list_all_iff)
      moreover from q sz have "q \<in> set ys" by (metis set_sort)
      with wb have "wf_json (snd q)" by (simp add: list_all_iff)
      ultimately have "iterencode fr opts (level + 1) (snd p) = iterencode fr opts (level + 1) (snd q)"
        using r sk by blast
      with r show "?g p = ?g q" by simp
    qed
    then have m: "map ?g (sort_key fst xs) = map ?g (sort_key fst ys)" by (simp only: sz)
    show "iterencode fr opts level (JDict xs) = iterencode fr opts level (JDict ys)"
      using m e sk by (simp only: iterencode.simps if_True)
  qed
qed

lemma json_dumps_key_order:
  "same_up_to_key_order a b \<Longrightarrow> wf_json a \<Longrightarrow> wf_json b \<Longrightarrow> sort_keys opts \<Longrightarrow>
     json_dumps fr opts a = json_dumps fr opts b"
  using iterencode_key_order [of a b opts fr] by (simp add: json_dumps_def)

subsection \<open>Hexadecimal digests and sample serializations\<close>

lemma hash_input_is_hash_output: "hash_input fr sha256 data = hash_output fr sha256 data"
  by (simp add: hash_input_def hash_output_def)

lemma iterencode_separator_free:
  "separator_free v \<Longrightarrow> sort_keys o1 = sort_keys o2 \<Longrightarrow> indent o1 = indent o2 \<Longrightarrow>
     iterencode fr o1 level v = iterencode fr o2 level v"
proof (induction v arbitrary: level)
  case (JList xs)
  from JList.prems(1) have "xs = [] \<or> (\<exists>x. xs = [x])"
    by (cases xs) (auto simp add: length_Suc_conv)
  then show ?case
  proof
    assume "xs = []"
    then show ?thesis by simp
  next
    assume "\<exists>x. xs = [x]"
    then obtain x where x: "xs = [x]" ..
    with JList.prems have "separator_free x" by simp
    with JList.IH [of x "level + 1"] JList.prems x
    have "iterencode fr o1 (level + 1) x = iterencode fr o2 (level + 1) x" by simp
    with x JList.prems show ?thesis by (simp add: newline_indent_def)
  qed
next
  case (JDict kvs)
  then show ?case by simp
qed simp_all

lemma hex_digit_inj: "a < 16 \<Longrightarrow> b < 16 \<Longrightarrow> hex_digit a = hex_digit b \<Longrightarrow> a = b"
proof -
  assume a: "a < 16" and b: "b < 16" and e: "hex_digit a = hex_digit b"
  have v: "\<And>n. n < 16 \<Longrightarrow> (of_char (hex_digit n) :: nat) = (if n < 10 then 48 + n else 87 + n)"
    by (simp add: hex_digit_def)
  from e have "(of_char (hex_digit a) :: nat) = of_char (hex_digit b)" by simp
  with a b show ?thesis by (simp add: v split: if_splits)
qed

lemma hex_byte_inj: "hex_byte a = hex_byte b \<Longrightarrow> a = b"
proof -
  assume e: "hex_byte a = hex_byte b"
  have la: "unat a div 16 < 16" and lb: "unat b div 16 < 16"
    using unsigned_less [of a, where ?'a = nat] unsigned_less [of b, where ?'a = nat] by simp_all
  from e have "hex_digit (unat a div 16) = hex_digit (unat b div 16)"
    and "hex_digit (unat a mod 16) = hex_digit (unat b mod 16)"
    by (simp_all add: hex_byte_def)
  with la lb have d: "unat a div 16 = unat b div 16" and m: "unat a mod 16 = unat b mod 16"
    by (simp_all add: hex_digit_inj)
  have "unat a = 16 * (unat a div 16) + unat a mod 16" by simp
  also have "\<dots> = 16 * (unat b div 16) + unat b mod 16" by (simp only: d m)
  also have "\<dots> = unat b" by simp
  finally show ?thesis by (rule unsigned_word_eqI)
qed

lemma hex_inj: "hex bs = hex cs \<Longrightarrow> bs = cs"
proof (induction bs arbitrary: cs)
  case Nil
  then show ?case by (cases cs) (simp_all add: hex_def hex_byte_def)
next
  case (Cons b bs)
  show ?case
  proof (cases cs)
    case Nil
    with Cons.prems show ?thesis by (simp add: hex_def hex_byte_def)
  next
    case c: (Cons c cs')
    with Cons.prems have "hex_byte b @ hex bs = hex_byte c @ hex cs'" by (simp add: hex_def)
    moreover have "length (hex_byte b) = length (hex_byte c)" by (simp add: hex_byte_def)
    ultimately have "hex_byte b = hex_byte c" "hex bs = hex cs'" by simp_all
    with Cons.IH c show ?thesis by (simp add: hex_byte_inj)
  qed
qed

lemma digest_bytes_nth:
  "i < 32 \<Longrightarrow> digest_bytes w ! i = ucast (drop_bit (8 * (31 - i)) w)"
  by (simp add: digest_bytes_def)

lemma digest_bytes_inj: "digest_bytes w = digest_bytes w' \<Longrightarrow> w = w'"
proof (rule bit_word_eqI)
  fix n
  assume e: "digest_bytes w = digest_bytes w'" and n: "n < LENGTH(256)"
  define i where "i = 31 - n div 8"
  from n have i: "i < 32" and k: "8 * (31 - i) + n mod 8 = n"
    by (simp_all add: i_def)
  from e have "digest_bytes w ! i = digest_bytes w' ! i" by simp
  with i have "(ucast (drop_bit (8 * (31 - i)) w) :: byte) = ucast (drop_bit (8 * (31 - i)) w')"
    by (simp only: digest_bytes_nth)
  then have "bit (ucast (drop_bit (8 * (31 - i)) w) :: byte) (n mod 8)
           = bit (ucast (drop_bit (8 * (31 - i)) w') :: byte) (n mod 8)" by simp
  then have "bit w (8 * (31 - i) + n mod 8) = bit w' (8 * (31 - i) + n mod 8)"
    by (simp add: bit_simps)
  with k show "bit w n = bit w' n" by simp
qed

lemma hexdigest_inj: "hexdigest w = hexdigest w' \<Longrightarrow> w = w'"
  by (simp add: hexdigest_def hex_inj digest_bytes_inj)

lemma digit_char_1: "digit_char (Suc 0) = CHR ''1''"
  by (rule of_char_eqI [where ?'a = nat]) (simp add: digit_char_def)

lemma dumps_default_a1:
  \<open>json_dumps fr \<lparr>sort_keys = True, item_separator = '', '', key_separator = '': '', indent = None\<rparr>
     (JDict [(''a'', JInt 1)]) = ''{"a": 1}''\<close>
  by (simp add: json_dumps_def newline_indent_def encode_basestring_ascii_def escape_char_def
        str_int_def str_nat.simps [of "Suc 0"] digit_char_1)

lemma dumps_compact_a1:
  \<open>json_dumps fr \<lparr>sort_keys = True, item_separator = '','', key_separator = '':'', indent = None\<rparr>
     (JDict [(''a'', JInt 1)]) = ''{"a":1}''\<close>
  by (simp add: json_dumps_def newline_indent_def encode_basestring_ascii_def escape_char_def
        str_int_def str_nat.simps [of "Suc 0"] digit_char_1)

lemma dumps_default_x1:
  \<open>json_dumps fr \<lparr>sort_keys = True, item_separator = '', '', key_separator = '': '', indent = None\<rparr>
     (JDict [(''x'', JInt 1)]) = ''{"x": 1}''\<close>
  by (simp add: json_dumps_def newline_indent_def encode_basestring_ascii_def escape_char_def
        str_int_def str_nat.simps [of "Suc 0"] digit_char_1)

lemma dumps_default_xtrue:
  \<open>json_dumps fr \<lparr>sort_keys = True, item_separator = '', '', key_separator = '': '', indent = None\<rparr>
     (JDict [(''x'', JBool True)]) = ''{"x": true}''\<close>
  by (simp add: json_dumps_def newline_indent_def encode_basestring_ascii_def escape_char_def)

lemma length_join:
  "length (join sep xs) = sum_list (map length xs) + (length xs - 1) * length sep"
  by (induction sep xs rule: join.induct) simp_all

lemma sum_list_less:
  "\<forall>x\<in>set xs. f x \<le> (g x :: nat) \<Longrightarrow> \<exists>x\<in>set xs. f x < g x \<Longrightarrow>
     sum_list (map f xs) < sum_list (map g xs)"
proof (induction xs)
  case Nil
  then show ?case by simp
next
  case (Cons a xs)
  have le: "sum_list (map f xs) \<le> sum_list (map g xs)"
    using Cons.prems(1) by (intro sum_list_mono) simp
  show ?case
  proof (cases "f a < g a")
    case True
    with le show ?thesis by simp
  next
    case False
    with Cons.prems have "\<exists>x\<in>set xs. f x < g x" by auto
    moreover from Cons.prems have "\<forall>x\<in>set xs. f x \<le> g x" by simp
    ultimately have "sum_list (map f xs) < sum_list (map g xs)" by (rule Cons.IH [rotated])
    moreover from Cons.prems have "f a \<le> g a" by simp
    ultimately show ?thesis by simp
  qed
qed

lemma iterencode_compact_shorter:
  "length (iterencode fr
       \<lparr>sort_keys = True, item_separator = '','', key_separator = '':'', indent = None\<rparr> level v)
     \<le> length (iterencode fr
       \<lparr>sort_keys = True, item_separator = '', '', key_separator = '': '', indent = None\<rparr> level v)
   \<and> (\<not> separator_free v \<longrightarrow>
        length (iterencode fr
          \<lparr>sort_keys = True, item_separator = '','', key_separator = '':'', indent = None\<rparr> level v)
        < length (iterencode fr
          \<lparr>sort_keys = True, item_separator = '', '', key_separator = '': '', indent = None\<rparr> level v))"
  (is "?le level v \<and> (\<not> separator_free v \<longrightarrow> ?lt level v)")
proof (induction v arbitrary: level)
  case (JList xs)
  let ?c = "\<lambda>x. length (iterencode fr
       \<lparr>sort_keys = True, item_separator = '','', key_separator = '':'', indent = None\<rparr> (level + 1) x)"
  let ?d = "\<lambda>x. length (iterencode fr
       \<lparr>sort_keys = True, item_separator = '', '', key_separator = '': '', indent = None\<rparr> (level + 1) x)"
  have le: "\<forall>x\<in>set xs. ?c x \<le> ?d x" using JList.IH by blast
  then have sle: "sum_list (map ?c xs) \<le> sum_list (map ?d xs)" by (intro sum_list_mono) simp
  show ?case
  proof (cases "xs = []")
    case True
    then show ?thesis by simp
  next
    case False
    then have n: "0 < length xs" by simp
    have lc: "length (iterencode fr
       \<lparr>sort_keys = True, item_separator = '','', key_separator = '':'', indent = None\<rparr> level (JList xs))
       = 2 + sum_list (map ?c xs) + (length xs - 1)"
      using False by (simp add: newline_indent_def length_join comp_def)
    have ld: "length (iterencode fr
       \<lparr>sort_keys = True, item_separator = '', '', key_separator = '': '', indent = None\<rparr> level (JList xs))
       = 2 + sum_list (map ?d xs) + (length xs - 1) * 2"
      using False by (simp add: newline_indent_def length_join comp_def)
    have "?le level (JList xs)" unfolding lc ld using sle by simp
    moreover have "?lt level (JList xs)" if ns: "\<not> separator_free (JList xs)"
    proof (cases "1 < length xs")
      case True
      then have "length xs - 1 < (length xs - 1) * 2" by simp
      with sle show ?thesis unfolding lc ld by simp
    next
      case one: False
      with ns have "\<exists>x\<in>set xs. \<not> separator_free x" by (auto simp add: list_all_iff)
      with JList.IH have "\<exists>x\<in>set xs. ?c x < ?d x" by blast
      with le have "sum_list (map ?c xs) < sum_list (map ?d xs)" by (rule sum_list_less)
      then show ?thesis unfolding lc ld by simp
    qed
    ultimately show ?thesis by blast
  qed
next
  case (JDict kvs)
  let ?C = "\<lparr>sort_keys = True, item_separator = '','', key_separator = '':'', indent = None\<rparr>"
  let ?D = "\<lparr>sort_keys = True, item_separator = '', '', key_separator = '': '', indent = None\<rparr>"
  let ?c = "\<lambda>kv. length (encode_basestring_ascii (fst kv) @ key_separator ?C
                              @ iterencode fr ?C (level + 1) (snd kv))"
  let ?d = "\<lambda>kv. length (encode_basestring_ascii (fst kv) @ key_separator ?D
                              @ iterencode fr ?D (level + 1) (snd kv))"
  let ?zs = "sort_key fst kvs"
  have ih: "\<And>kv. kv \<in> set kvs \<Longrightarrow>
      length (iterencode fr ?C (level + 1) (snd kv)) \<le> length (iterencode fr ?D (level + 1) (snd kv))"
  proof -
    fix kv assume "kv \<in> set kvs"
    moreover have "snd kv \<in> Basic_BNFs.snds kv" by (cases kv) simp
    ultimately show "length (iterencode fr ?C (level + 1) (snd kv))
        \<le> length (iterencode fr ?D (level + 1) (snd kv))"
      using JDict.IH by blast
  qed
  have lt: "\<forall>kv\<in>set ?zs. ?c kv < ?d kv"
  proof
    fix kv assume "kv \<in> set ?zs"
    then have "kv \<in> set kvs" by simp
    from ih [OF this] show "?c kv < ?d kv" by simp
  qed
  show ?case
  proof (cases "kvs = []")
    case True
    then show ?thesis by simp
  next
    case False
    then have ne: "?zs \<noteq> []" by (metis length_0_conv length_sort)
    then obtain z where "z \<in> set ?zs" by (cases ?zs) auto
    with lt have ex: "\<exists>kv\<in>set ?zs. ?c kv < ?d kv" by blast
    from lt have "\<forall>kv\<in>set ?zs. ?c kv \<le> ?d kv" by (simp add: less_imp_le)
    then have s: "sum_list (map ?c ?zs) < sum_list (map ?d ?zs)" using ex by (rule sum_list_less)
    have lc: "length (iterencode fr ?C level (JDict kvs))
       = 2 + sum_list (map ?c ?zs) + (length ?zs - 1)"
      using False by (simp add: newline_indent_def length_join comp_def)
    have ld: "length (iterencode fr ?D level (JDict kvs))
       = 2 + sum_list (map ?d ?zs) + (length ?zs - 1) * 2"
      using False by (simp add: newline_indent_def length_join comp_def)
    from s show ?thesis unfolding lc ld by simp
  qed
qed simp_all

lemma json_dumps_separators_agree_iff:
  "(json_dumps fr \<lparr>sort_keys = True, item_separator = '','', key_separator = '':'', indent = None\<rparr> v
      = json_dumps fr \<lparr>sort_keys = True, item_separator = '', '', key_separator = '': '', indent = None\<rparr> v)
     = separator_free v"
proof
  assume e: "json_dumps fr \<lparr>sort_keys = True, item_separator = '','', key_separator = '':'', indent = None\<rparr> v
      = json_dumps fr \<lparr>sort_keys = True, item_separator = '', '', key_separator = '': '', indent = None\<rparr> v"
  show "separator_free v"
  proof (rule ccontr)
    assume "\<not> separator_free v"
    with iterencode_compact_shorter [of fr 0 v]
    have "length (json_dumps fr \<lparr>sort_keys = True, item_separator = '','', key_separator = '':'', indent = None\<rparr> v)
      < length (json_dumps fr \<lparr>sort_keys = True, item_separator = '', '', key_separator = '': '', indent = None\<rparr> v)"
      by (simp add: json_dumps_def)
    with e show False by simp
  qed
next
  assume "separator_free v"
  then show "json_dumps fr \<lparr>sort_keys = True, item_separator = '','', key_separator = '':'', indent = None\<rparr> v
      = json_dumps fr \<lparr>sort_keys = True, item_separator = '', '', key_separator = '': '', indent = None\<rparr> v"
    unfolding json_dumps_def by (rule iterencode_separator_free) simp_all
qed

lemma utf8_encode_eq_iff: "(utf8_encode s = utf8_encode t) = (s = t)"
proof
  assume "utf8_encode s = utf8_encode t"
  then show "s = t" by (rule utf8_encode_inj)
next
  assume "s = t"
  then show "utf8_encode s = utf8_encode t" by (rule arg_cong)
qed

lemma hexdigest_eq_iff: "(''0x'' @ hexdigest w = ''0x'' @ hexdigest w') = (w = w')"
proof
  assume "''0x'' @ hexdigest w = ''0x'' @ hexdigest w'"
  then have "hexdigest w = hexdigest w'" by (simp only: same_append_eq)
  then show "w = w'" by (rule hexdigest_inj)
next
  assume "w = w'"
  then show "''0x'' @ hexdigest w = ''0x'' @ hexdigest w'" by (simp only:)
qed

subsection \<open>Key order\<close>

text \<open>
  C4, as the code has it. The three hash functions serialize with \<^verbatim>\<open>sort_keys=True\<close>:
  two dictionaries that differ only in the order of their keys, at any nesting depth, with
  lists in the same order and the same scalars (same type, same value, same sign of
  zero), serialize to the same bytes under both separator settings and get the same digest
  string from \<^verbatim>\<open>hash_input\<close>, from \<^verbatim>\<open>hash_output\<close> and from \<^verbatim>\<open>hash_bundle\<close>.
\<close>

theorem canonical_hash_key_order_invariant:
  "same_up_to_key_order (JDict a) (JDict b) \<and> wf_json (JDict a) \<and> wf_json (JDict b) \<longrightarrow>
     utf8_encode (json_dumps fr
        \<lparr>sort_keys = True, item_separator = '', '', key_separator = '': '', indent = None\<rparr> (JDict a))
     = utf8_encode (json_dumps fr
        \<lparr>sort_keys = True, item_separator = '', '', key_separator = '': '', indent = None\<rparr> (JDict b))
   \<and> utf8_encode (json_dumps fr
        \<lparr>sort_keys = True, item_separator = '','', key_separator = '':'', indent = None\<rparr> (JDict a))
     = utf8_encode (json_dumps fr
        \<lparr>sort_keys = True, item_separator = '','', key_separator = '':'', indent = None\<rparr> (JDict b))
   \<and> hash_input fr sha256 a = hash_input fr sha256 b
   \<and> hash_output fr sha256 a = hash_output fr sha256 b
   \<and> hash_bundle fr sha256 a = hash_bundle fr sha256 b"
proof (intro impI, elim conjE)
  assume s: "same_up_to_key_order (JDict a) (JDict b)"
    and wa: "wf_json (JDict a)" and wb: "wf_json (JDict b)"
  have d: "json_dumps fr
            \<lparr>sort_keys = True, item_separator = '', '', key_separator = '': '', indent = None\<rparr> (JDict a)
         = json_dumps fr
            \<lparr>sort_keys = True, item_separator = '', '', key_separator = '': '', indent = None\<rparr> (JDict b)"
    using s wa wb by (rule json_dumps_key_order) simp
  have c: "json_dumps fr
            \<lparr>sort_keys = True, item_separator = '','', key_separator = '':'', indent = None\<rparr> (JDict a)
         = json_dumps fr
            \<lparr>sort_keys = True, item_separator = '','', key_separator = '':'', indent = None\<rparr> (JDict b)"
    using s wa wb by (rule json_dumps_key_order) simp
  show "utf8_encode (json_dumps fr
        \<lparr>sort_keys = True, item_separator = '', '', key_separator = '': '', indent = None\<rparr> (JDict a))
     = utf8_encode (json_dumps fr
        \<lparr>sort_keys = True, item_separator = '', '', key_separator = '': '', indent = None\<rparr> (JDict b))
   \<and> utf8_encode (json_dumps fr
        \<lparr>sort_keys = True, item_separator = '','', key_separator = '':'', indent = None\<rparr> (JDict a))
     = utf8_encode (json_dumps fr
        \<lparr>sort_keys = True, item_separator = '','', key_separator = '':'', indent = None\<rparr> (JDict b))
   \<and> hash_input fr sha256 a = hash_input fr sha256 b
   \<and> hash_output fr sha256 a = hash_output fr sha256 b
   \<and> hash_bundle fr sha256 a = hash_bundle fr sha256 b"
    by (simp only: hash_input_def hash_output_def hash_bundle_def Let_def d c)
qed

theorem canonical_hash_key_order_invariant_witness:
  "utf8_encode (json_dumps (\<lambda>r. ''0.9'')
      \<lparr>sort_keys = True, item_separator = '', '', key_separator = '': '', indent = None\<rparr>
      (JDict [(''question'', JStr ''Test?''),
              (''sources'', JList [JDict [(''id'', JStr ''test''), (''data'', JStr ''value'')]])]))
   = utf8_encode (json_dumps (\<lambda>r. ''0.9'')
      \<lparr>sort_keys = True, item_separator = '', '', key_separator = '': '', indent = None\<rparr>
      (JDict [(''sources'', JList [JDict [(''data'', JStr ''value''), (''id'', JStr ''test'')]]),
              (''question'', JStr ''Test?'')]))
   \<and> hash_bundle (\<lambda>r. ''0.9'') (\<lambda>bs. of_nat (length bs))
     [(''question'', JStr ''Test?''), (''sources'', JList [JDict [(''id'', JStr ''test''), (''data'', JStr ''value'')]])]
   = hash_bundle (\<lambda>r. ''0.9'') (\<lambda>bs. of_nat (length bs))
     [(''sources'', JList [JDict [(''data'', JStr ''value''), (''id'', JStr ''test'')]]), (''question'', JStr ''Test?'')]"
proof -
  have i: "same_up_to_key_order (JDict [(''id'', JStr ''test''), (''data'', JStr ''value'')])
             (JDict [(''data'', JStr ''value''), (''id'', JStr ''test'')])"
    by (rule same_up_to_key_order.dicts [where zs = "[(''id'', JStr ''test''), (''data'', JStr ''value'')]"])
       (simp_all add: same)
  have l: "same_up_to_key_order (JList [JDict [(''id'', JStr ''test''), (''data'', JStr ''value'')]])
             (JList [JDict [(''data'', JStr ''value''), (''id'', JStr ''test'')]])"
    by (rule same_up_to_key_order.lists) (simp add: i)
  have o: "same_up_to_key_order
       (JDict [(''question'', JStr ''Test?''),
               (''sources'', JList [JDict [(''id'', JStr ''test''), (''data'', JStr ''value'')]])])
       (JDict [(''sources'', JList [JDict [(''data'', JStr ''value''), (''id'', JStr ''test'')]]),
               (''question'', JStr ''Test?'')])"
    by (rule same_up_to_key_order.dicts [where zs = "[(''question'', JStr ''Test?''),
               (''sources'', JList [JDict [(''data'', JStr ''value''), (''id'', JStr ''test'')]])]"])
       (simp_all add: same l)
  have w1: "wf_json (JDict [(''question'', JStr ''Test?''),
               (''sources'', JList [JDict [(''id'', JStr ''test''), (''data'', JStr ''value'')]])])"
    by simp
  have w2: "wf_json (JDict [(''sources'', JList [JDict [(''data'', JStr ''value''), (''id'', JStr ''test'')]]),
               (''question'', JStr ''Test?'')])"
    by simp
  note t = canonical_hash_key_order_invariant
      [where a = "[(''question'', JStr ''Test?''),
                   (''sources'', JList [JDict [(''id'', JStr ''test''), (''data'', JStr ''value'')]])]"
         and b = "[(''sources'', JList [JDict [(''data'', JStr ''value''), (''id'', JStr ''test'')]]),
                   (''question'', JStr ''Test?'')]"
         and fr = "\<lambda>r. ''0.9''" and ?sha256.0 = "\<lambda>bs. of_nat (length bs)"]
  from t o w1 w2 show ?thesis by blast
qed

text \<open>
  The second half of the claim, that structurally equal values hash byte-identically, fails
  where scalars are equal by value only: \<^verbatim>\<open>{"x": 1}\<close> and \<^verbatim>\<open>{"x": True}\<close> are equal
  (\<^verbatim>\<open>1 == True\<close>), and \<^verbatim>\<open>hash_input\<close> hashes the bytes of \<^verbatim>\<open>{"x": 1}\<close> for the
  one and of \<^verbatim>\<open>{"x": true}\<close> for the other; the digests are equal only if the hash
  function collides on these two byte strings. The same holds of \<^verbatim>\<open>1\<close> and \<^verbatim>\<open>1.0\<close>
  and of \<^verbatim>\<open>0.0\<close> and \<^verbatim>\<open>-0.0\<close>, which the encoder prints differently.
\<close>

theorem canonical_hash_by_value_differs:
  \<open>\<forall>fr sha256.
     structurally_equal (JDict [(''x'', JInt 1)]) (JDict [(''x'', JBool True)])
   \<and> hash_input fr sha256 [(''x'', JInt 1)] = ''0x'' @ hexdigest (sha256 (utf8_encode ''{"x": 1}''))
   \<and> hash_input fr sha256 [(''x'', JBool True)]
       = ''0x'' @ hexdigest (sha256 (utf8_encode ''{"x": true}''))
   \<and> utf8_encode ''{"x": 1}'' \<noteq> utf8_encode ''{"x": true}''
   \<and> (hash_input fr sha256 [(''x'', JInt 1)] = hash_input fr sha256 [(''x'', JBool True)])
       = (sha256 (utf8_encode ''{"x": 1}'') = sha256 (utf8_encode ''{"x": true}''))\<close>
proof (intro allI conjI)
  fix fr :: "rat \<Rightarrow> string" and sha256 :: "bytes \<Rightarrow> 256 word"
  have "scalar_eq (JInt 1) (JBool True)"
    by (simp add: scalar_eq_def as_number_def)
  then have "structurally_equal (JInt 1) (JBool True)" by (rule structurally_equal.scalars)
  then show "structurally_equal (JDict [(''x'', JInt 1)]) (JDict [(''x'', JBool True)])"
    by (intro structurally_equal.dicts [where zs = "[(''x'', JBool True)]"]) simp_all
  show i: \<open>hash_input fr sha256 [(''x'', JInt 1)] = ''0x'' @ hexdigest (sha256 (utf8_encode ''{"x": 1}''))\<close>
    by (simp only: hash_input_def Let_def dumps_default_x1)
  show b: \<open>hash_input fr sha256 [(''x'', JBool True)]
       = ''0x'' @ hexdigest (sha256 (utf8_encode ''{"x": true}''))\<close>
    by (simp only: hash_input_def Let_def dumps_default_xtrue)
  show \<open>utf8_encode ''{"x": 1}'' \<noteq> utf8_encode ''{"x": true}''\<close>
  proof
    assume \<open>utf8_encode ''{"x": 1}'' = utf8_encode ''{"x": true}''\<close>
    then have \<open>''{"x": 1}'' = ''{"x": true}''\<close> by (rule utf8_encode_inj)
    then show False by simp
  qed
  show \<open>(hash_input fr sha256 [(''x'', JInt 1)] = hash_input fr sha256 [(''x'', JBool True)])
       = (sha256 (utf8_encode ''{"x": 1}'') = sha256 (utf8_encode ''{"x": true}''))\<close>
    unfolding i b
  proof
    assume \<open>''0x'' @ hexdigest (sha256 (utf8_encode ''{"x": 1}''))
       = ''0x'' @ hexdigest (sha256 (utf8_encode ''{"x": true}''))\<close>
    then have \<open>hexdigest (sha256 (utf8_encode ''{"x": 1}''))
       = hexdigest (sha256 (utf8_encode ''{"x": true}''))\<close> by (simp only: same_append_eq)
    then show \<open>sha256 (utf8_encode ''{"x": 1}'') = sha256 (utf8_encode ''{"x": true}'')\<close>
      by (rule hexdigest_inj)
  next
    assume \<open>sha256 (utf8_encode ''{"x": 1}'') = sha256 (utf8_encode ''{"x": true}'')\<close>
    then show \<open>''0x'' @ hexdigest (sha256 (utf8_encode ''{"x": 1}''))
       = ''0x'' @ hexdigest (sha256 (utf8_encode ''{"x": true}''))\<close> by (simp only:)
  qed
qed

subsection \<open>The two serializations\<close>

text \<open>
  C6, as the code has it. \<^verbatim>\<open>hash_input\<close> and \<^verbatim>\<open>hash_output\<close> are the same function.
  \<^verbatim>\<open>hash_bundle\<close> sorts the keys as they do but writes the compact separators: the
  bytes it hashes are those of \<^verbatim>\<open>hash_input\<close> exactly for the values whose
  serialization holds no separator, and for any other value they differ. Of the
  dictionaries only the empty one has equal bytes, and for every dictionary the two digest
  strings are equal exactly when the hash function agrees on the two serializations.
\<close>

theorem hash_input_output_same_function:
  "hash_input fr sha256 data = hash_output fr sha256 data
   \<and> (utf8_encode (json_dumps fr
          \<lparr>sort_keys = True, item_separator = '','', key_separator = '':'', indent = None\<rparr> v)
        = utf8_encode (json_dumps fr
          \<lparr>sort_keys = True, item_separator = '', '', key_separator = '': '', indent = None\<rparr> v))
       = separator_free v
   \<and> (utf8_encode (json_dumps fr
          \<lparr>sort_keys = True, item_separator = '','', key_separator = '':'', indent = None\<rparr> (JDict data))
        = utf8_encode (json_dumps fr
          \<lparr>sort_keys = True, item_separator = '', '', key_separator = '': '', indent = None\<rparr> (JDict data)))
       = (data = [])
   \<and> (hash_bundle fr sha256 data = hash_input fr sha256 data)
       = (sha256 (utf8_encode (json_dumps fr
            \<lparr>sort_keys = True, item_separator = '','', key_separator = '':'', indent = None\<rparr> (JDict data)))
          = sha256 (utf8_encode (json_dumps fr
            \<lparr>sort_keys = True, item_separator = '', '', key_separator = '': '', indent = None\<rparr> (JDict data))))
   \<and> (separator_free (JDict data) \<longrightarrow> hash_bundle fr sha256 data = hash_input fr sha256 data)
   \<and> (separator_free v \<longrightarrow>
        json_dumps fr \<lparr>sort_keys = True, item_separator = '','', key_separator = '':'', indent = None\<rparr> v
        = json_dumps fr \<lparr>sort_keys = True, item_separator = '', '', key_separator = '': '', indent = None\<rparr> v)"
proof (intro conjI impI)
  show "hash_input fr sha256 data = hash_output fr sha256 data"
    by (rule hash_input_is_hash_output)
next
  have "(utf8_encode (json_dumps fr
          \<lparr>sort_keys = True, item_separator = '','', key_separator = '':'', indent = None\<rparr> v)
        = utf8_encode (json_dumps fr
          \<lparr>sort_keys = True, item_separator = '', '', key_separator = '': '', indent = None\<rparr> v))
       = (json_dumps fr
          \<lparr>sort_keys = True, item_separator = '','', key_separator = '':'', indent = None\<rparr> v
        = json_dumps fr
          \<lparr>sort_keys = True, item_separator = '', '', key_separator = '': '', indent = None\<rparr> v)"
    by (rule utf8_encode_eq_iff)
  then show "(utf8_encode (json_dumps fr
          \<lparr>sort_keys = True, item_separator = '','', key_separator = '':'', indent = None\<rparr> v)
        = utf8_encode (json_dumps fr
          \<lparr>sort_keys = True, item_separator = '', '', key_separator = '': '', indent = None\<rparr> v))
       = separator_free v"
    by (simp only: json_dumps_separators_agree_iff)
next
  have "(utf8_encode (json_dumps fr
          \<lparr>sort_keys = True, item_separator = '','', key_separator = '':'', indent = None\<rparr> (JDict data))
        = utf8_encode (json_dumps fr
          \<lparr>sort_keys = True, item_separator = '', '', key_separator = '': '', indent = None\<rparr> (JDict data)))
       = (json_dumps fr
          \<lparr>sort_keys = True, item_separator = '','', key_separator = '':'', indent = None\<rparr> (JDict data)
        = json_dumps fr
          \<lparr>sort_keys = True, item_separator = '', '', key_separator = '': '', indent = None\<rparr> (JDict data))"
    by (rule utf8_encode_eq_iff)
  also have "\<dots> = separator_free (JDict data)" by (rule json_dumps_separators_agree_iff)
  also have "\<dots> = (data = [])" by simp
  finally show "(utf8_encode (json_dumps fr
          \<lparr>sort_keys = True, item_separator = '','', key_separator = '':'', indent = None\<rparr> (JDict data))
        = utf8_encode (json_dumps fr
          \<lparr>sort_keys = True, item_separator = '', '', key_separator = '': '', indent = None\<rparr> (JDict data)))
       = (data = [])" .
next
  show "(hash_bundle fr sha256 data = hash_input fr sha256 data)
       = (sha256 (utf8_encode (json_dumps fr
            \<lparr>sort_keys = True, item_separator = '','', key_separator = '':'', indent = None\<rparr> (JDict data)))
          = sha256 (utf8_encode (json_dumps fr
            \<lparr>sort_keys = True, item_separator = '', '', key_separator = '': '', indent = None\<rparr> (JDict data))))"
    unfolding hash_bundle_def hash_input_def Let_def by (rule hexdigest_eq_iff)
next
  assume "separator_free (JDict data)"
  then have "data = []" by simp
  then show "hash_bundle fr sha256 data = hash_input fr sha256 data"
    by (simp add: hash_bundle_def hash_input_def json_dumps_def)
next
  assume "separator_free v"
  then show "json_dumps fr \<lparr>sort_keys = True, item_separator = '','', key_separator = '':'', indent = None\<rparr> v
        = json_dumps fr \<lparr>sort_keys = True, item_separator = '', '', key_separator = '': '', indent = None\<rparr> v"
    by (simp only: json_dumps_separators_agree_iff)
qed

theorem hash_input_output_same_function_witness:
  "hash_bundle (\<lambda>r. ''0.9'') (\<lambda>bs. of_nat (length bs)) []
     = hash_input (\<lambda>r. ''0.9'') (\<lambda>bs. of_nat (length bs)) []
   \<and> json_dumps (\<lambda>r. ''0.9'')
        \<lparr>sort_keys = True, item_separator = '','', key_separator = '':'', indent = None\<rparr>
        (JList [JStr ''src:a''])
     = json_dumps (\<lambda>r. ''0.9'')
        \<lparr>sort_keys = True, item_separator = '', '', key_separator = '': '', indent = None\<rparr>
        (JList [JStr ''src:a''])
   \<and> utf8_encode (json_dumps (\<lambda>r. ''0.9'')
        \<lparr>sort_keys = True, item_separator = '','', key_separator = '':'', indent = None\<rparr>
        (JList [JInt 1, JInt 2]))
     \<noteq> utf8_encode (json_dumps (\<lambda>r. ''0.9'')
        \<lparr>sort_keys = True, item_separator = '', '', key_separator = '': '', indent = None\<rparr>
        (JList [JInt 1, JInt 2]))"
proof -
  have s1: "separator_free (JDict [])" by simp
  have s2: "separator_free (JList [JStr ''src:a''])" by simp
  have s3: "\<not> separator_free (JList [JInt 1, JInt 2])" by simp
  note t1 = hash_input_output_same_function
    [where fr = "\<lambda>r. ''0.9''" and ?sha256.0 = "\<lambda>bs. of_nat (length bs)" and data = "[]"
       and v = "JList [JStr ''src:a'']"]
  note t2 = hash_input_output_same_function
    [where fr = "\<lambda>r. ''0.9''" and ?sha256.0 = "\<lambda>bs. of_nat (length bs)" and data = "[]"
       and v = "JList [JInt 1, JInt 2]"]
  from t1 s1 have a: "hash_bundle (\<lambda>r. ''0.9'') (\<lambda>bs. of_nat (length bs)) []
     = hash_input (\<lambda>r. ''0.9'') (\<lambda>bs. of_nat (length bs)) []" by blast
  from t1 s2 have b: "json_dumps (\<lambda>r. ''0.9'')
        \<lparr>sort_keys = True, item_separator = '','', key_separator = '':'', indent = None\<rparr>
        (JList [JStr ''src:a''])
     = json_dumps (\<lambda>r. ''0.9'')
        \<lparr>sort_keys = True, item_separator = '', '', key_separator = '': '', indent = None\<rparr>
        (JList [JStr ''src:a''])" by blast
  from t2 s3 have c: "utf8_encode (json_dumps (\<lambda>r. ''0.9'')
        \<lparr>sort_keys = True, item_separator = '','', key_separator = '':'', indent = None\<rparr>
        (JList [JInt 1, JInt 2]))
     \<noteq> utf8_encode (json_dumps (\<lambda>r. ''0.9'')
        \<lparr>sort_keys = True, item_separator = '', '', key_separator = '': '', indent = None\<rparr>
        (JList [JInt 1, JInt 2]))" by blast
  from a b c show ?thesis by blast
qed

text \<open>
  The claim as the specification states it fails. For the dictionary \<^verbatim>\<open>{"a": 1}\<close>,
  \<^verbatim>\<open>hash_input\<close> hashes the eight bytes of \<^verbatim>\<open>{"a": 1}\<close> and \<^verbatim>\<open>hash_bundle\<close> the
  seven bytes of \<^verbatim>\<open>{"a":1}\<close>: the serializations differ, and the two digests are equal
  only if the hash function collides on these two byte strings.
\<close>

theorem hash_bundle_serialization_differs:
  \<open>\<forall>fr sha256.
     hash_input fr sha256 [(''a'', JInt 1)] = ''0x'' @ hexdigest (sha256 (utf8_encode ''{"a": 1}''))
   \<and> hash_bundle fr sha256 [(''a'', JInt 1)] = ''0x'' @ hexdigest (sha256 (utf8_encode ''{"a":1}''))
   \<and> utf8_encode ''{"a": 1}'' \<noteq> utf8_encode ''{"a":1}''
   \<and> (hash_input fr sha256 [(''a'', JInt 1)] = hash_bundle fr sha256 [(''a'', JInt 1)])
       = (sha256 (utf8_encode ''{"a": 1}'') = sha256 (utf8_encode ''{"a":1}''))\<close>
proof (intro allI conjI)
  fix fr :: "rat \<Rightarrow> string" and sha256 :: "bytes \<Rightarrow> 256 word"
  show i: \<open>hash_input fr sha256 [(''a'', JInt 1)] = ''0x'' @ hexdigest (sha256 (utf8_encode ''{"a": 1}''))\<close>
    by (simp only: hash_input_def Let_def dumps_default_a1)
  show b: \<open>hash_bundle fr sha256 [(''a'', JInt 1)] = ''0x'' @ hexdigest (sha256 (utf8_encode ''{"a":1}''))\<close>
    by (simp only: hash_bundle_def Let_def dumps_compact_a1)
  show \<open>utf8_encode ''{"a": 1}'' \<noteq> utf8_encode ''{"a":1}''\<close>
  proof
    assume \<open>utf8_encode ''{"a": 1}'' = utf8_encode ''{"a":1}''\<close>
    then have \<open>''{"a": 1}'' = ''{"a":1}''\<close> by (rule utf8_encode_inj)
    then show False by simp
  qed
  show \<open>(hash_input fr sha256 [(''a'', JInt 1)] = hash_bundle fr sha256 [(''a'', JInt 1)])
       = (sha256 (utf8_encode ''{"a": 1}'') = sha256 (utf8_encode ''{"a":1}''))\<close>
    unfolding i b using hexdigest_inj by auto
qed

section \<open>Signatures and the attestation proof\<close>

subsection \<open>Hexadecimal strings\<close>

lemma of_char_hex_digit:
  "n < 16 \<Longrightarrow> (of_char (hex_digit n) :: nat) = (if n < 10 then 48 + n else 87 + n)"
  by (simp add: hex_digit_def)

lemma hex_value_hex_digit: "n < 16 \<Longrightarrow> hex_value (hex_digit n) = Some n"
  by (simp add: hex_value_def Let_def of_char_hex_digit)

lemma hex_digit_not_space: "n < 16 \<Longrightarrow> \<not> is_space (hex_digit n)"
  by (auto simp add: is_space_def of_char_hex_digit split: if_splits)

lemma byte_nibbles: "(of_nat (16 * (unat b div 16) + unat b mod 16) :: byte) = b"
  by simp

lemma bytes_fromhex_hex_byte:
  "bytes_fromhex (hex_byte b @ rest) = map_option ((#) b) (bytes_fromhex rest)"
proof -
  have hi: "unat b div 16 < 16" using unsigned_less [of b, where ?'a = nat] by simp
  have lo: "unat b mod 16 < 16" by simp
  have "bytes_fromhex (hex_digit (unat b div 16) # hex_digit (unat b mod 16) # rest)
        = map_option ((#) (of_nat (16 * (unat b div 16) + unat b mod 16))) (bytes_fromhex rest)"
    by (simp only: bytes_fromhex.simps hex_digit_not_space [OF hi] if_False
          hex_value_hex_digit [OF hi] hex_value_hex_digit [OF lo] prod.case option.case)
  then show ?thesis by (simp only: hex_byte_def byte_nibbles append_Cons append_Nil)
qed

lemma bytes_fromhex_hex: "bytes_fromhex (hex bs) = Some bs"
proof (induction bs)
  case Nil
  show ?case by (simp add: hex_def)
next
  case (Cons b bs)
  have "hex (b # bs) = hex_byte b @ hex bs" by (simp add: hex_def)
  with Cons show ?case by (simp only: bytes_fromhex_hex_byte option.map)
qed

subsection \<open>Signing and verifying\<close>

lemma sign_report_32:
  "length d = 32 \<Longrightarrow>
     sign_report ec_sign self rnd d = Inr (''0x'' @ hex (ec_sign (private_key self) rnd d))"
  by (simp add: sign_report_def Let_def)

lemma verify_signature_hex:
  "verify_signature ec_verify self d (c1 # c2 # hex s)
     = (length d = 32 \<and> ec_verify (public_key self) s d)"
  by (simp add: verify_signature_def bytes_fromhex_hex)

lemma verify_signature_iff:
  "verify_signature ec_verify self d signature
     = (\<exists>sig_bytes. bytes_fromhex (drop 2 signature) = Some sig_bytes \<and> length d = 32
          \<and> ec_verify (public_key self) sig_bytes d)"
  by (simp add: verify_signature_def split: option.splits)

lemma length_create_report_digest:
  "length (create_report_digest sha256 self h_in h_out blob_id blob_hash timestamp nonce) = 32"
  by (simp add: create_report_digest_def digest_bytes_def)

lemma create_report_digest_cong:
  "enclave_id v = enclave_id self \<Longrightarrow> mrenclave v = mrenclave self \<Longrightarrow>
     create_report_digest sha256 v h_in h_out blob_id blob_hash timestamp nonce
     = create_report_digest sha256 self h_in h_out blob_id blob_hash timestamp nonce"
  by (simp add: create_report_digest_def digest_string_def)

text \<open>
  C2, as the code has it. \<^verbatim>\<open>verify_signature\<close> never raises: it returns true exactly
  when the signature string, its first two characters dropped, is a hexadecimal string
  and the library accepts the decoded bytes for the 32-byte digest. On the string
  \<^verbatim>\<open>sign_report\<close> made for a 32-byte digest its verdict is the library's verdict on the
  signature bytes, whatever digest it is checked against: true for the digest signed when
  the library verifies what it signs, and for another digest whatever ECDSA decides. A
  string that is not hexadecimal after its first two characters is refused.
\<close>

theorem verify_signature_verdict:
  "verify_signature ec_verify self d signature
     = (\<exists>sig_bytes. bytes_fromhex (drop 2 signature) = Some sig_bytes \<and> length d = 32
          \<and> ec_verify (public_key self) sig_bytes d)
   \<and> (length d2 = 32 \<longrightarrow>
        (\<exists>s. sign_report ec_sign self rnd d2 = Inr s
           \<and> verify_signature ec_verify self d s
              = (length d = 32 \<and> ec_verify (public_key self) (ec_sign (private_key self) rnd d2) d)))
   \<and> (length d = 32 \<and> ec_verify (public_key self) (ec_sign (private_key self) rnd d) d \<longrightarrow>
        (\<exists>s. sign_report ec_sign self rnd d = Inr s \<and> verify_signature ec_verify self d s))
   \<and> (bytes_fromhex (drop 2 signature) = None \<longrightarrow> \<not> verify_signature ec_verify self d signature)"
proof (intro conjI impI)
  show "verify_signature ec_verify self d signature
     = (\<exists>sig_bytes. bytes_fromhex (drop 2 signature) = Some sig_bytes \<and> length d = 32
          \<and> ec_verify (public_key self) sig_bytes d)"
    by (rule verify_signature_iff)
next
  assume l: "length d2 = 32"
  have "verify_signature ec_verify self d (''0x'' @ hex (ec_sign (private_key self) rnd d2))
              = (length d = 32 \<and> ec_verify (public_key self) (ec_sign (private_key self) rnd d2) d)"
    using verify_signature_hex [of ec_verify self d "CHR ''0''" "CHR ''x''"] by simp
  with sign_report_32 [OF l, of ec_sign self rnd]
  show "\<exists>s. sign_report ec_sign self rnd d2 = Inr s
           \<and> verify_signature ec_verify self d s
              = (length d = 32 \<and> ec_verify (public_key self) (ec_sign (private_key self) rnd d2) d)"
    by blast
next
  assume a: "length d = 32 \<and> ec_verify (public_key self) (ec_sign (private_key self) rnd d) d"
  then have l: "length d = 32" by simp
  have "verify_signature ec_verify self d (''0x'' @ hex (ec_sign (private_key self) rnd d))
              = (length d = 32 \<and> ec_verify (public_key self) (ec_sign (private_key self) rnd d) d)"
    using verify_signature_hex [of ec_verify self d "CHR ''0''" "CHR ''x''"] by simp
  with a have "verify_signature ec_verify self d (''0x'' @ hex (ec_sign (private_key self) rnd d))"
    by simp
  with sign_report_32 [OF l, of ec_sign self rnd]
  show "\<exists>s. sign_report ec_sign self rnd d = Inr s \<and> verify_signature ec_verify self d s"
    by blast
next
  assume "bytes_fromhex (drop 2 signature) = None"
  then show "\<not> verify_signature ec_verify self d signature"
    by (simp add: verify_signature_def)
qed

theorem verify_signature_verdict_witness:
  "(\<exists>s. sign_report (\<lambda>sk rnd d. d) \<lparr>enclave_id = ''0xENC'', enclave_pubkey = ''0xPUB'',
            mrenclave = ''0xMR'', private_key = (), public_key = ()\<rparr> () (replicate 32 0) = Inr s
        \<and> verify_signature (\<lambda>pk s d. s = d) \<lparr>enclave_id = ''0xENC'', enclave_pubkey = ''0xPUB'',
            mrenclave = ''0xMR'', private_key = (), public_key = ()\<rparr> (replicate 32 0) s)
   \<and> \<not> verify_signature (\<lambda>pk s d. s = d) \<lparr>enclave_id = ''0xENC'', enclave_pubkey = ''0xPUB'',
            mrenclave = ''0xMR'', private_key = (), public_key = ()\<rparr> (replicate 32 0) ''0xzz''"
proof -
  have n: "bytes_fromhex (drop 2 ''0xzz'') = None"
    by (simp add: is_space_def hex_value_def)
  show ?thesis
    using verify_signature_verdict
      [where ec_verify = "\<lambda>pk s d. s = d" and ec_sign = "\<lambda>sk rnd d. d"
         and self = "\<lparr>enclave_id = ''0xENC'', enclave_pubkey = ''0xPUB'',
            mrenclave = ''0xMR'', private_key = (), public_key = ()\<rparr>"
         and rnd = "()" and d = "replicate 32 0" and ?d2.0 = "replicate 32 0"
         and signature = "''0xzz''"] n
    by simp
qed

text \<open>
  The claim as the specification states it fails, whatever the ECDSA library does:
  \<^verbatim>\<open>signature[2:]\<close> drops the first two characters unchecked, so a string that does not
  start with \<^verbatim>\<open>0x\<close> gets the verdict of the well-formed one with the same digits. For
  the digest of 32 zero bytes (any digest would do), if the signature made by
  \<^verbatim>\<open>sign_report\<close> verifies, as the first half of the claim says, then so does a
  malformed string, against its second half.
\<close>

theorem verify_signature_ignores_prefix:
  "\<forall>ec_sign ec_verify (self :: ('sk, 'pk) TEESignatureGenerator) (rnd :: 'r).
     \<not> ((\<exists>s. sign_report ec_sign self rnd (replicate 32 0) = Inr s
              \<and> verify_signature ec_verify self (replicate 32 0) s)
        \<and> (\<forall>s. take 2 s \<noteq> ''0x'' \<longrightarrow> \<not> verify_signature ec_verify self (replicate 32 0) s))"
proof (intro allI notI, elim conjE exE)
  fix ec_sign :: "'sk \<Rightarrow> 'r \<Rightarrow> bytes \<Rightarrow> bytes" and ec_verify :: "'pk \<Rightarrow> bytes \<Rightarrow> bytes \<Rightarrow> bool"
    and self :: "('sk, 'pk) TEESignatureGenerator" and rnd :: 'r and s
  assume s: "sign_report ec_sign self rnd (replicate 32 0) = Inr s"
    and v: "verify_signature ec_verify self (replicate 32 0) s"
    and m: "\<forall>s. take 2 s \<noteq> ''0x'' \<longrightarrow> \<not> verify_signature ec_verify self (replicate 32 0) s"
  from s have "s = ''0x'' @ hex (ec_sign (private_key self) rnd (replicate 32 0))"
    by (simp add: sign_report_def Let_def)
  with v have "ec_verify (public_key self) (ec_sign (private_key self) rnd (replicate 32 0)) (replicate 32 0)"
    using verify_signature_hex [of ec_verify self "replicate 32 0" "CHR ''0''" "CHR ''x''"] by simp
  then have "verify_signature ec_verify self (replicate 32 0)
               (''zz'' @ hex (ec_sign (private_key self) rnd (replicate 32 0)))"
    using verify_signature_hex [of ec_verify self "replicate 32 0" "CHR ''z''" "CHR ''z''"] by simp
  moreover have "take 2 (''zz'' @ hex (ec_sign (private_key self) rnd (replicate 32 0))) \<noteq> ''0x''"
    by simp
  ultimately show False using m by blast
qed

text \<open>
  C9. \<^verbatim>\<open>create_tee_proof\<close> always returns a proof. Its fields are the values the digest
  was built from: the two hashes, the blob id and hash given, the timestamp and the nonce
  drawn, and the enclave id and measurement of the generator. The digest recomputed from
  the proof's own fields, by any generator that carries the proof's enclave id and
  measurement, is the digest that was signed: \<^verbatim>\<open>sign_report\<close> on it gives the proof's
  signature, and \<^verbatim>\<open>verify_signature\<close> on it and that signature returns the library's
  verdict on the signature of this digest.
\<close>

theorem create_tee_proof_fields_verbatim:
  "\<exists>P. create_tee_proof fr sha256 ec_sign self now nonce_token rnd mrsigner_token now'
          inference_input inference_output blob_id blob_hash = Inr P
     \<and> proof_enclave_id P = enclave_id self \<and> proof_enclave_pubkey P = enclave_pubkey self
     \<and> proof_mrenclave P = mrenclave self
     \<and> proof_h_in P = hash_input fr sha256 inference_input
     \<and> proof_h_out P = hash_output fr sha256 inference_output
     \<and> proof_blob_id P = blob_id \<and> proof_blob_hash P = blob_hash
     \<and> proof_timestamp P = now \<and> proof_nonce P = generate_nonce nonce_token
     \<and> (\<forall>v :: ('sk, 'pk) TEESignatureGenerator.
           enclave_id v = proof_enclave_id P \<and> mrenclave v = proof_mrenclave P \<longrightarrow>
           create_report_digest sha256 v (proof_h_in P) (proof_h_out P) (proof_blob_id P)
               (proof_blob_hash P) (proof_timestamp P) (proof_nonce P)
           = create_report_digest sha256 self (hash_input fr sha256 inference_input)
               (hash_output fr sha256 inference_output) blob_id blob_hash now
               (generate_nonce nonce_token))
     \<and> sign_report ec_sign self rnd
           (create_report_digest sha256 self (proof_h_in P) (proof_h_out P) (proof_blob_id P)
               (proof_blob_hash P) (proof_timestamp P) (proof_nonce P)) = Inr (proof_sig P)
     \<and> verify_signature ec_verify self
           (create_report_digest sha256 self (proof_h_in P) (proof_h_out P) (proof_blob_id P)
               (proof_blob_hash P) (proof_timestamp P) (proof_nonce P)) (proof_sig P)
         = ec_verify (public_key self)
             (ec_sign (private_key self) rnd
                (create_report_digest sha256 self (proof_h_in P) (proof_h_out P) (proof_blob_id P)
                   (proof_blob_hash P) (proof_timestamp P) (proof_nonce P)))
             (create_report_digest sha256 self (proof_h_in P) (proof_h_out P) (proof_blob_id P)
                (proof_blob_hash P) (proof_timestamp P) (proof_nonce P))"
proof -
  define D where "D = create_report_digest sha256 self (hash_input fr sha256 inference_input)
               (hash_output fr sha256 inference_output) blob_id blob_hash now
               (generate_nonce nonce_token)"
  have l: "length D = 32" unfolding D_def by (rule length_create_report_digest)
  have sg: "sign_report ec_sign self rnd D = Inr (''0x'' @ hex (ec_sign (private_key self) rnd D))"
    using l by (rule sign_report_32)
  define P where "P = \<lparr>proof_enclave_id = enclave_id self,
                      proof_enclave_pubkey = enclave_pubkey self,
                      proof_mrenclave = mrenclave self,
                      proof_sig = ''0x'' @ hex (ec_sign (private_key self) rnd D),
                      proof_attestation = generate_attestation fr sha256 self mrsigner_token now' D,
                      proof_timestamp = now,
                      proof_nonce = generate_nonce nonce_token,
                      proof_h_in = hash_input fr sha256 inference_input,
                      proof_h_out = hash_output fr sha256 inference_output,
                      proof_blob_id = blob_id,
                      proof_blob_hash = blob_hash\<rparr>"
  have c: "create_tee_proof fr sha256 ec_sign self now nonce_token rnd mrsigner_token now'
          inference_input inference_output blob_id blob_hash = Inr P"
    unfolding create_tee_proof_def Let_def D_def [symmetric] sg P_def by simp
  have f: "proof_enclave_id P = enclave_id self" "proof_enclave_pubkey P = enclave_pubkey self"
    "proof_mrenclave P = mrenclave self"
    "proof_h_in P = hash_input fr sha256 inference_input"
    "proof_h_out P = hash_output fr sha256 inference_output"
    "proof_blob_id P = blob_id" "proof_blob_hash P = blob_hash"
    "proof_timestamp P = now" "proof_nonce P = generate_nonce nonce_token"
    "proof_sig P = ''0x'' @ hex (ec_sign (private_key self) rnd D)"
    by (simp_all add: P_def)
  have v: "verify_signature ec_verify self D (''0x'' @ hex (ec_sign (private_key self) rnd D))
        = ec_verify (public_key self) (ec_sign (private_key self) rnd D) D"
    using verify_signature_hex [of ec_verify self D "CHR ''0''" "CHR ''x''"] l by simp
  have g: "\<forall>v :: ('sk, 'pk) TEESignatureGenerator.
           enclave_id v = proof_enclave_id P \<and> mrenclave v = proof_mrenclave P \<longrightarrow>
           create_report_digest sha256 v (proof_h_in P) (proof_h_out P) (proof_blob_id P)
               (proof_blob_hash P) (proof_timestamp P) (proof_nonce P) = D"
  proof (intro allI impI)
    fix v :: "('sk, 'pk) TEESignatureGenerator"
    assume a: "enclave_id v = proof_enclave_id P \<and> mrenclave v = proof_mrenclave P"
    then have e: "enclave_id v = enclave_id self" and m: "mrenclave v = mrenclave self"
      by (simp_all only: f)
    show "create_report_digest sha256 v (proof_h_in P) (proof_h_out P) (proof_blob_id P)
               (proof_blob_hash P) (proof_timestamp P) (proof_nonce P) = D"
      unfolding f D_def using e m by (rule create_report_digest_cong)
  qed
  have s1: "sign_report ec_sign self rnd
           (create_report_digest sha256 self (proof_h_in P) (proof_h_out P) (proof_blob_id P)
               (proof_blob_hash P) (proof_timestamp P) (proof_nonce P)) = Inr (proof_sig P)"
    unfolding f D_def [symmetric] by (rule sg)
  have v1: "verify_signature ec_verify self
           (create_report_digest sha256 self (proof_h_in P) (proof_h_out P) (proof_blob_id P)
               (proof_blob_hash P) (proof_timestamp P) (proof_nonce P)) (proof_sig P)
         = ec_verify (public_key self)
             (ec_sign (private_key self) rnd
                (create_report_digest sha256 self (proof_h_in P) (proof_h_out P) (proof_blob_id P)
                   (proof_blob_hash P) (proof_timestamp P) (proof_nonce P)))
             (create_report_digest sha256 self (proof_h_in P) (proof_h_out P) (proof_blob_id P)
                (proof_blob_hash P) (proof_timestamp P) (proof_nonce P))"
    unfolding f D_def [symmetric] by (rule v)
  from c f(1-9) g [unfolded D_def] s1 v1 show ?thesis by blast
qed

theorem create_tee_proof_fields_verbatim_witness:
  "\<exists>P. create_tee_proof (\<lambda>r. ''0.9'') (\<lambda>bs. 0) (\<lambda>sk rnd d. d)
          \<lparr>enclave_id = ''0xENC'', enclave_pubkey = ''0xPUB'', mrenclave = ''0xMR'',
           private_key = (), public_key = ()\<rparr>
          1700000000 ''44'' () ''55'' 1700000001
          [(''question'', JStr ''Test?'')] [(''rationale'', JStr ''Test'')] ''test_blob'' ''0xabc123''
        = Inr P
     \<and> proof_blob_id P = ''test_blob'' \<and> proof_timestamp P = 1700000000
     \<and> create_report_digest (\<lambda>bs. 0)
          \<lparr>enclave_id = proof_enclave_id P, enclave_pubkey = ''other'', mrenclave = proof_mrenclave P,
           private_key = (), public_key = ()\<rparr>
          (proof_h_in P) (proof_h_out P) (proof_blob_id P)
               (proof_blob_hash P) (proof_timestamp P) (proof_nonce P)
       = create_report_digest (\<lambda>bs. 0)
          \<lparr>enclave_id = ''0xENC'', enclave_pubkey = ''0xPUB'', mrenclave = ''0xMR'',
           private_key = (), public_key = ()\<rparr>
          (hash_input (\<lambda>r. ''0.9'') (\<lambda>bs. 0) [(''question'', JStr ''Test?'')])
          (hash_output (\<lambda>r. ''0.9'') (\<lambda>bs. 0) [(''rationale'', JStr ''Test'')])
          ''test_blob'' ''0xabc123'' 1700000000 (generate_nonce ''44'')"
proof -
  from create_tee_proof_fields_verbatim
      [where fr = "\<lambda>r. ''0.9''" and ?sha256.0 = "\<lambda>bs. 0" and ec_sign = "\<lambda>sk rnd d. d"
         and ec_verify = "\<lambda>pk s d. s = d"
         and self = "\<lparr>enclave_id = ''0xENC'', enclave_pubkey = ''0xPUB'', mrenclave = ''0xMR'',
           private_key = (), public_key = ()\<rparr>"
         and now = 1700000000 and nonce_token = "''44''" and rnd = "()"
         and mrsigner_token = "''55''" and now' = 1700000001
         and inference_input = "[(''question'', JStr ''Test?'')]"
         and inference_output = "[(''rationale'', JStr ''Test'')]"
         and blob_id = "''test_blob''" and blob_hash = "''0xabc123''"]
  obtain P where p: "create_tee_proof (\<lambda>r. ''0.9'') (\<lambda>bs. 0) (\<lambda>sk rnd d. d)
          \<lparr>enclave_id = ''0xENC'', enclave_pubkey = ''0xPUB'', mrenclave = ''0xMR'',
           private_key = (), public_key = ()\<rparr>
          1700000000 ''44'' () ''55'' 1700000001
          [(''question'', JStr ''Test?'')] [(''rationale'', JStr ''Test'')] ''test_blob'' ''0xabc123''
        = Inr P"
    and b: "proof_blob_id P = ''test_blob''" and t: "proof_timestamp P = 1700000000"
    and g: "\<forall>v :: (unit, unit) TEESignatureGenerator.
           enclave_id v = proof_enclave_id P \<and> mrenclave v = proof_mrenclave P \<longrightarrow>
           create_report_digest (\<lambda>bs. 0) v (proof_h_in P) (proof_h_out P) (proof_blob_id P)
               (proof_blob_hash P) (proof_timestamp P) (proof_nonce P)
           = create_report_digest (\<lambda>bs. 0)
               \<lparr>enclave_id = ''0xENC'', enclave_pubkey = ''0xPUB'', mrenclave = ''0xMR'',
                private_key = (), public_key = ()\<rparr>
               (hash_input (\<lambda>r. ''0.9'') (\<lambda>bs. 0) [(''question'', JStr ''Test?'')])
               (hash_output (\<lambda>r. ''0.9'') (\<lambda>bs. 0) [(''rationale'', JStr ''Test'')])
               ''test_blob'' ''0xabc123'' 1700000000 (generate_nonce ''44'')"
    by blast
  from g have "create_report_digest (\<lambda>bs. 0)
          \<lparr>enclave_id = proof_enclave_id P, enclave_pubkey = ''other'', mrenclave = proof_mrenclave P,
           private_key = (), public_key = ()\<rparr>
          (proof_h_in P) (proof_h_out P) (proof_blob_id P)
               (proof_blob_hash P) (proof_timestamp P) (proof_nonce P)
       = create_report_digest (\<lambda>bs. 0)
          \<lparr>enclave_id = ''0xENC'', enclave_pubkey = ''0xPUB'', mrenclave = ''0xMR'',
           private_key = (), public_key = ()\<rparr>
          (hash_input (\<lambda>r. ''0.9'') (\<lambda>bs. 0) [(''question'', JStr ''Test?'')])
          (hash_output (\<lambda>r. ''0.9'') (\<lambda>bs. 0) [(''rationale'', JStr ''Test'')])
          ''test_blob'' ''0xabc123'' 1700000000 (generate_nonce ''44'')"
    by simp
  with p b t show ?thesis by blast
qed

end
